theory Spec2Isabelle
  imports Complex_Main "HOL-Library.Log_Nat"
begin

section \<open>JavaScript strings\<close>

text \<open>
  The itinerary pipeline lives in \<^verbatim>\<open>Backend/src/services/localAIService.js\<close> and the
  traffic lookup in the traffic service.  Text is modelled as a list of 8-bit code units
  (the Latin-1 range of JavaScript's UTF-16 strings).  The helpers below are the
  built-in string operations the service calls, written out as the language defines them.
\<close>

definition whiteSpace :: string where
  \<comment> \<open>the members of the regular-expression class \<^verbatim>\<open>\s\<close> (and of \<^verbatim>\<open>trim\<close>) below U+0100\<close>
  "whiteSpace = [CHR 0x09, CHR 0x0A, CHR 0x0B, CHR 0x0C, CHR 0x0D, CHR 0x20, CHR 0xA0]"

definition digits :: string where
  "digits = ''0123456789''"

definition toLowerChar :: "char \<Rightarrow> char" where
  "toLowerChar c =
     (let n = (of_char c :: nat)
      in if (65 \<le> n \<and> n \<le> 90) \<or> (192 \<le> n \<and> n \<le> 222 \<and> n \<noteq> 215)
         then char_of (n + 32) else c)"

definition toLowerCase :: "string \<Rightarrow> string" where
  "toLowerCase s = map toLowerChar s"

fun startsWith :: "string \<Rightarrow> string \<Rightarrow> bool" where
  "startsWith s [] = True"
| "startsWith [] (c # w) = False"
| "startsWith (x # s) (c # w) = (x = c \<and> startsWith s w)"

fun includesStr :: "string \<Rightarrow> string \<Rightarrow> bool" where
  "includesStr [] w = (w = [])"
| "includesStr (x # s) w = (startsWith (x # s) w \<or> includesStr s w)"

definition substring0 :: "nat \<Rightarrow> string \<Rightarrow> string" where
  \<comment> \<open>\<^verbatim>\<open>s.substring(0, n)\<close>\<close>
  "substring0 n s = take n s"

definition trim :: "string \<Rightarrow> string" where
  "trim s = rev (dropWhile (\<lambda>c. c \<in> set whiteSpace) (rev (dropWhile (\<lambda>c. c \<in> set whiteSpace) s)))"

fun splitOn :: "char \<Rightarrow> string \<Rightarrow> string list" where
  \<comment> \<open>\<^verbatim>\<open>s.split(c)\<close> for a one-character separator\<close>
  "splitOn c [] = [[]]"
| "splitOn c (x # s) =
     (if x = c then [] # splitOn c s
      else (case splitOn c s of [] \<Rightarrow> [[x]] | p # ps \<Rightarrow> (x # p) # ps))"

definition digitChar :: "nat \<Rightarrow> char" where
  \<comment> \<open>the character of a decimal digit\<close>
  "digitChar d = digits ! d"

fun showNat :: "nat \<Rightarrow> string" where
  "showNat n = (if n < 10 then [digitChar n] else showNat (n div 10) @ [digitChar (n mod 10)])"

declare showNat.simps [simp del]

definition showInt :: "int \<Rightarrow> string" where
  \<comment> \<open>\<^verbatim>\<open>Number.prototype.toString\<close> on an integer\<close>
  "showInt i = (if i < 0 then CHR ''-'' # showNat (nat (- i)) else showNat (nat i))"

definition padStart2 :: "string \<Rightarrow> string" where
  \<comment> \<open>\<^verbatim>\<open>s.padStart(2, '0')\<close>\<close>
  "padStart2 s = replicate (2 - length s) CHR ''0'' @ s"

subsection \<open>parseInt\<close>

text \<open>
  \<^verbatim>\<open>parseInt(s)\<close> without a radix: leading white space is skipped, a sign is read, a
  \<^verbatim>\<open>0x\<close> prefix switches to base 16, and the longest prefix of digits is the value.
  No digit at all gives \<^verbatim>\<open>NaN\<close>, which is \<open>None\<close> here.
\<close>

definition hexVal :: "char \<Rightarrow> nat option" where
  "hexVal c =
     (let n = (of_char c :: nat)
      in if 48 \<le> n \<and> n \<le> 57 then Some (n - 48)
         else if 97 \<le> n \<and> n \<le> 102 then Some (n - 87)
         else if 65 \<le> n \<and> n \<le> 70 then Some (n - 55)
         else None)"

definition digitVal :: "nat \<Rightarrow> char \<Rightarrow> nat option" where
  "digitVal radix c = (case hexVal c of None \<Rightarrow> None | Some d \<Rightarrow> if d < radix then Some d else None)"

fun readDigits :: "nat \<Rightarrow> nat option \<Rightarrow> string \<Rightarrow> nat option" where
  "readDigits radix acc [] = acc"
| "readDigits radix acc (c # s) =
     (case digitVal radix c of
        None \<Rightarrow> acc
      | Some d \<Rightarrow> readDigits radix (Some ((case acc of None \<Rightarrow> 0 | Some a \<Rightarrow> a) * radix + d)) s)"

definition parseUnsigned :: "string \<Rightarrow> nat option" where
  "parseUnsigned s =
     (if startsWith s ''0x'' \<or> startsWith s ''0X'' then readDigits 16 None (drop 2 s)
      else readDigits 10 None s)"

definition parseInt :: "string \<Rightarrow> int option" where
  "parseInt s =
     (case dropWhile (\<lambda>c. c \<in> set whiteSpace) s of
        [] \<Rightarrow> None
      | c # t \<Rightarrow>
          if c = CHR ''-'' then map_option (\<lambda>n. - int n) (parseUnsigned t)
          else if c = CHR ''+'' then map_option int (parseUnsigned t)
          else map_option int (parseUnsigned (c # t)))"

definition parseIntArg :: "string option \<Rightarrow> int option" where
  \<comment> \<open>\<^verbatim>\<open>parseInt(undefined)\<close> reads the text \<^verbatim>\<open>undefined\<close> and is \<^verbatim>\<open>NaN\<close>\<close>
  "parseIntArg a = (case a of None \<Rightarrow> None | Some s \<Rightarrow> parseInt s)"

section \<open>Regular expressions\<close>

text \<open>
  The fragment of JavaScript regular expressions the service uses: literal text,
  character classes (\<open>Cls\<close>) and negated classes (\<open>NCls\<close>, so \<^verbatim>\<open>[\s\S]\<close> is \<open>NCls []\<close>),
  sequence, greedy bounded repetition, capturing groups, \<^verbatim>\<open>$\<close> and positive lookahead.
  \<open>ms r s\<close> lists every way \<open>r\<close> matches a prefix of \<open>s\<close> in the backtracking order of
  the language (the first entry is the match the engine reports): each entry is the rest of
  the input after the match, with the captured groups.  No pattern of the service has a
  group under a repetition or a repetition of an expression that can match the empty string.
\<close>

datatype rx =
    Lit string
  | Cls "char list"
  | NCls "char list"
  | Seq rx rx
  | Rep nat "nat option" rx
  | Grp rx
  | Eol
  | Look rx

primrec rxSize :: "rx \<Rightarrow> nat" where
  "rxSize (Lit w) = 1"
| "rxSize (Cls cs) = 1"
| "rxSize (NCls cs) = 1"
| "rxSize (Seq a b) = Suc (rxSize a + rxSize b)"
| "rxSize (Rep m n a) = Suc (rxSize a)"
| "rxSize (Grp a) = Suc (rxSize a)"
| "rxSize Eol = 1"
| "rxSize (Look a) = Suc (rxSize a)"

function ms :: "rx \<Rightarrow> string \<Rightarrow> (string \<times> string list) list" where
  "ms (Lit w) s = (if startsWith s w then [(drop (length w) s, [])] else [])"
| "ms (Cls cs) s = (case s of [] \<Rightarrow> [] | c # t \<Rightarrow> if c \<in> set cs then [(t, [])] else [])"
| "ms (NCls cs) s = (case s of [] \<Rightarrow> [] | c # t \<Rightarrow> if c \<in> set cs then [] else [(t, [])])"
| "ms (Seq a b) s =
     concat (map (\<lambda>rg. map (\<lambda>rg'. (fst rg', snd rg @ snd rg')) (ms b (fst rg))) (ms a s))"
| "ms (Rep m n a) s =
     (if n = Some 0 then [(s, [])]
      else concat (map (\<lambda>rg. if length (fst rg) < length s
                              then map (\<lambda>rg'. (fst rg', snd rg @ snd rg'))
                                     (ms (Rep (m - 1) (map_option (\<lambda>k. k - 1) n) a) (fst rg))
                              else [])
                       (ms a s))
           @ (if m = 0 then [(s, [])] else []))"
| "ms (Grp a) s = map (\<lambda>rg. (fst rg, take (length s - length (fst rg)) s # snd rg)) (ms a s)"
| "ms Eol s = (if s = [] then [(s, [])] else [])"
| "ms (Look a) s = (case ms a s of [] \<Rightarrow> [] | rg # _ \<Rightarrow> [(s, snd rg)])"
  by pat_completeness auto
termination
  by (relation "inv_image (less_than <*lex*> less_than) (\<lambda>(r, s). (rxSize r, length s))") auto

declare ms.simps [simp del]

fun seqs :: "rx list \<Rightarrow> rx" where
  "seqs [] = Lit []"
| "seqs [r] = r"
| "seqs (r # rs) = Seq r (seqs rs)"

abbreviation star :: "rx \<Rightarrow> rx" where "star r \<equiv> Rep 0 None r"
abbreviation plus1 :: "rx \<Rightarrow> rx" where "plus1 r \<equiv> Rep 1 None r"
abbreviation ws :: rx where "ws \<equiv> Cls whiteSpace"
abbreviation digit :: rx where "digit \<equiv> Cls digits"

text \<open>A replacement text: literal pieces and group references (\<^verbatim>\<open>$1\<close> is \<open>G 1\<close>).\<close>

datatype tpl = T string | G nat

fun subst :: "tpl list \<Rightarrow> string list \<Rightarrow> string" where
  "subst [] g = []"
| "subst (T w # ts) g = w @ subst ts g"
| "subst (G k # ts) g = (if 0 < k \<and> k \<le> length g then g ! (k - 1) else []) @ subst ts g"

text \<open>
  \<open>search\<close> is the leftmost match (\<^verbatim>\<open>String.prototype.match\<close> without the global flag):
  the text before it, the matched text, the rest and the groups.
\<close>

fun search :: "rx \<Rightarrow> string \<Rightarrow> string \<Rightarrow> (string \<times> string \<times> string \<times> string list) option" where
  "search r pre [] =
     (case ms r [] of [] \<Rightarrow> None | rg # _ \<Rightarrow> Some (pre, [], [], snd rg))"
| "search r pre (c # t) =
     (case ms r (c # t) of
        [] \<Rightarrow> search r (pre @ [c]) t
      | rg # _ \<Rightarrow> Some (pre, take (length (c # t) - length (fst rg)) (c # t), fst rg, snd rg))"

definition matchText :: "rx \<Rightarrow> string \<Rightarrow> string option" where
  "matchText r s = map_option (\<lambda>(pre, m, rest, g). m) (search r [] s)"

definition matchGroup1 :: "rx \<Rightarrow> string \<Rightarrow> string option" where
  \<comment> \<open>\<^verbatim>\<open>m = s.match(r)\<close>, then \<^verbatim>\<open>m[1]\<close>\<close>
  "matchGroup1 r s = map_option (\<lambda>(pre, m, rest, g). subst [G 1] g) (search r [] s)"

definition replaceFirst :: "rx \<Rightarrow> tpl list \<Rightarrow> string \<Rightarrow> string" where
  "replaceFirst r t s =
     (case search r [] s of None \<Rightarrow> s | Some (pre, m, rest, g) \<Rightarrow> pre @ subst t g @ rest)"

function replaceAll :: "rx \<Rightarrow> tpl list \<Rightarrow> string \<Rightarrow> string" where
  "replaceAll r t [] = (case ms r [] of [] \<Rightarrow> [] | rg # _ \<Rightarrow> subst t (snd rg))"
| "replaceAll r t (c # s) =
     (case ms r (c # s) of
        [] \<Rightarrow> c # replaceAll r t s
      | rg # _ \<Rightarrow>
          if length (fst rg) < length (c # s) then subst t (snd rg) @ replaceAll r t (fst rg)
          else subst t (snd rg) @ c # replaceAll r t s)"
  by pat_completeness auto
termination
  by (relation "measure (\<lambda>(r, t, s). length s)") auto

function matchAll :: "rx \<Rightarrow> string \<Rightarrow> string list" where
  \<comment> \<open>\<^verbatim>\<open>s.match(r)\<close> with the global flag: the matched texts, left to right\<close>
  "matchAll r [] = (case ms r [] of [] \<Rightarrow> [] | rg # _ \<Rightarrow> [[]])"
| "matchAll r (c # s) =
     (case ms r (c # s) of
        [] \<Rightarrow> matchAll r s
      | rg # _ \<Rightarrow>
          if length (fst rg) < length (c # s)
          then take (length (c # s) - length (fst rg)) (c # s) # matchAll r (fst rg)
          else [] # matchAll r s)"
  by pat_completeness auto
termination
  by (relation "measure (\<lambda>(r, s). length s)") auto

section \<open>Output repair: the text-normalisation passes\<close>

text \<open>
  The chain of \<^verbatim>\<open>replace\<close> calls of \<^verbatim>\<open>generateDirectTripPlan\<close> that cleans the candidate
  JSON text before it is deserialised, one entry per call, in the order of the source.
\<close>

datatype pass = ReplaceAll rx "tpl list" | ReplaceFirst rx "tpl list" | Trim

fun runPass :: "pass \<Rightarrow> string \<Rightarrow> string" where
  "runPass (ReplaceAll r t) s = replaceAll r t s"
| "runPass (ReplaceFirst r t) s = replaceFirst r t s"
| "runPass Trim s = trim s"

definition brokenTime :: "rx list" where
  \<comment> \<open>\<^verbatim>\<open>": "(\d{1,2}):\s*"(\d{2})"\<close>\<close>
  \<open>brokenTime =
     [Lit ''": "'', Grp (Rep 1 (Some 2) digit), Lit '':'', star ws, Lit ''"'',
      Grp (Rep 2 (Some 2) digit), Lit ''"'']\<close>

definition whitespacePasses :: "pass list" where
  \<open>whitespacePasses =
    [ReplaceAll (seqs [Lit [CHR 0x0A], star ws]) [T '' ''],
     ReplaceAll (plus1 ws) [T '' ''],
     Trim]\<close>

definition separatorPasses :: "pass list" where
  \<open>separatorPasses =
    [ReplaceAll (seqs [Lit '','', Grp (seqs [star ws, Cls ''}]''])]) [G 1],
     ReplaceAll (seqs [Lit '':'', plus1 ws, Lit ''"'']) [T '': "''],
     ReplaceAll (seqs [Lit ''",'', plus1 ws]) [T ''", ''],
     ReplaceFirst (seqs [Lit '','', star ws, Eol]) [],
     ReplaceFirst (seqs [Lit ''}'', star ws, Eol]) [T ''}'']]\<close>

definition valuePasses :: "pass list" where
  \<open>valuePasses =
    [ReplaceAll (Lit ''"null,"'') [T ''null''],
     ReplaceAll (Lit ''": "null,"'') [T ''": null''],
     ReplaceAll (seqs (brokenTime @ [Lit '',"''])) [T ''": "'', G 1, T '':'', G 2, T ''"''],
     ReplaceAll (seqs brokenTime) [T ''": "'', G 1, T '':'', G 2, T ''"''],
     ReplaceAll (seqs [Lit ''": "'', Grp (plus1 digit), star ws, Lit ''}"'']) [T ''": '', G 1, T ''}''],
     ReplaceAll (seqs [Lit ''": "'', Grp (plus1 digit), star ws, Lit ''",'']) [T ''": '', G 1, T '',''],
     ReplaceAll (seqs [Lit ''": "'', Grp (plus1 digit), Lit ''"'']) [T ''": '', G 1],
     ReplaceAll (seqs [Lit ''"visitOrder": "'', Grp (plus1 digit), Lit '',"''])
       [T ''"visitOrder": '', G 1],
     ReplaceAll (Lit ''": "true"'') [T ''": true''],
     ReplaceAll (Lit ''": "false"'') [T ''": false''],
     ReplaceAll (Lit ''": "null"'') [T ''": null'']]\<close>

definition costWordPasses :: "pass list" where
  \<open>costWordPasses =
    [ReplaceAll (Lit ''": low,'') [T ''": 400,''],
     ReplaceAll (Lit ''": medium,'') [T ''": 800,''],
     ReplaceAll (Lit ''": high,'') [T ''": 1500,''],
     ReplaceAll (Seq (Lit ''": low'') Eol) [T ''": 400''],
     ReplaceAll (Seq (Lit ''": medium'') Eol) [T ''": 800''],
     ReplaceAll (Seq (Lit ''": high'') Eol) [T ''": 1500''],
     ReplaceAll (Lit ''": low"'') [T ''": 400''],
     ReplaceAll (Lit ''": medium"'') [T ''": 800''],
     ReplaceAll (Lit ''": high"'') [T ''": 1500''],
     ReplaceAll (Lit '': low,'') [T '': 400,''],
     ReplaceAll (Lit '': medium,'') [T '': 800,''],
     ReplaceAll (Lit '': high,'') [T '': 1500,''],
     ReplaceAll (Seq (Lit '': low'') Eol) [T '': 400''],
     ReplaceAll (Seq (Lit '': medium'') Eol) [T '': 800''],
     ReplaceAll (Seq (Lit '': high'') Eol) [T '': 1500'']]\<close>

definition quotePasses :: "pass list" where
  \<open>quotePasses =
    [ReplaceAll (Rep 2 None (Lit ''"'')) [T ''"''],
     ReplaceAll (Seq (Lit ''"'') (plus1 (Lit '','')))  [T ''",'']]\<close>

definition cleaningPasses :: "pass list" where
  "cleaningPasses = whitespacePasses @ separatorPasses @ valuePasses @ costWordPasses @ quotePasses"

definition runPasses :: "pass list \<Rightarrow> string \<Rightarrow> string" where
  "runPasses ps s = foldl (\<lambda>acc p. runPass p acc) s ps"

definition cleanJson :: "string \<Rightarrow> string" where
  "cleanJson s = runPasses cleaningPasses s"

section \<open>Output repair: locating and reconstructing the JSON text\<close>

definition sumDurations :: "string list \<Rightarrow> nat" where
  \<comment> \<open>the \<^verbatim>\<open>reduce\<close> over the \<^verbatim>\<open>"duration": n\<close> matches: the first digit run of each\<close>
  "sumDurations ms' =
     foldl (\<lambda>acc m. acc + (case matchText (plus1 digit) m of
                               None \<Rightarrow> 0
                             | Some d \<Rightarrow> (case parseInt d of Some i \<Rightarrow> nat i | None \<Rightarrow> 0)))
           0 ms'"

definition lastIndexOf :: "char \<Rightarrow> string \<Rightarrow> nat option" where
  "lastIndexOf c s =
     (case filter (\<lambda>i. s ! i = c) (rev [0..<length s]) of [] \<Rightarrow> None | i # _ \<Rightarrow> Some i)"

definition reconstructJson :: "string \<Rightarrow> string option" where
  \<open>reconstructJson aiResponse =
     (case matchText (seqs [Lit ''"selectedAttractions"'', star ws, Lit '':'', star ws, Lit ''['',
                            star (NCls [])]) aiResponse of
        None \<Rightarrow> None
      | Some found \<Rightarrow>
          let attractionsStr =
                (if \<not> includesStr found '']''
                 then (case lastIndexOf CHR ''}'' found of
                         Some lastBrace \<Rightarrow> take (lastBrace + 1) found @ '']''
                       | None \<Rightarrow> found)
                 else found);
              attractionMatches =
                matchAll (seqs [Lit ''"duration"'', star ws, Lit '':'', star ws, Grp (plus1 digit)])
                  attractionsStr;
              summed = sumDurations attractionMatches;
              totalDuration = (if summed = 0 then 270 else summed);
              estimatedCost = (if totalDuration > 200 then 800 else 600 :: nat)
          in Some (''{'' @ attractionsStr @ '',"totalDuration":'' @ showNat totalDuration
                   @ '',"estimatedCost":'' @ showNat estimatedCost @ ''}''))\<close>

definition findJson :: "string \<Rightarrow> string option" where
  \<comment> \<open>the value of \<^verbatim>\<open>jsonMatch\<close> when the cleaning starts: the text from the first opening
      brace to the last closing one, or the reconstructed text\<close>
  \<open>findJson aiResponse =
     (let jsonMatch = matchText (seqs [Lit ''{'', star (NCls []), Lit ''}'']) aiResponse
      in if jsonMatch = None \<or> \<not> includesStr aiResponse ''totalDuration''
            \<or> \<not> includesStr aiResponse ''estimatedCost''
         then (case reconstructJson aiResponse of None \<Rightarrow> jsonMatch | Some j \<Rightarrow> Some j)
         else jsonMatch)\<close>

definition repairedJson :: "string \<Rightarrow> string option" where
  \<comment> \<open>the text handed to \<^verbatim>\<open>JSON.parse\<close>, if any\<close>
  "repairedJson aiResponse = map_option cleanJson (findJson aiResponse)"

section \<open>Data model\<close>

text \<open>
  An attraction of the candidate catalog (\<^verbatim>\<open>Attraction\<close> in \<^verbatim>\<open>Frontend/src/types/index.ts\<close>),
  with the fields the service reads.  The price tier is a text or absent; visit times are
  whole minutes.
\<close>

record attraction =
  aid :: string
  name :: string
  description :: "string option"
  category :: string
  priceRange :: "string option"
  estimatedVisitTime :: int

text \<open>One entry of the traffic matrix built by \<^verbatim>\<open>processTrafficMatrix\<close>.\<close>

record route =
  routeFrom :: string
  routeTo :: string
  trafficDuration :: int

record weather =
  weatherCondition :: "string option"
  condition :: "string option"
  weatherDescription :: "string option"
  temperature :: "int option"
  uvIndex :: "int option"
  airQuality :: "int option"

record realTimeData =
  weatherData :: "weather option"
  alerts :: nat
  traffic :: "route list option"

text \<open>
  The deserialised generator output, with the fields of the structure the prompt asks for.
  A field the generator left out is \<open>None\<close>.
\<close>

record selectedItem =
  attractionId :: string
  reason :: "string option"
  visitOrder :: "int option"
  suggestedTime :: "string option"
  duration :: "int option"

record aiTripPlan =
  selectedAttractions :: "selectedItem list"
  aiTotalDuration :: "int option"
  aiEstimatedCost :: "int option"

text \<open>
  A value that the service adds up as a cost: a number, or something that is not a number.
  A \<^verbatim>\<open>Date\<close> is the number of minutes since the local midnight of the current day, or
  \<open>None\<close> for an invalid date.  A start time is returned as text by
  \<^verbatim>\<open>processDirectTripPlan\<close> and \<^verbatim>\<open>extractTripPlanFromText\<close> and as a date by the fallback.
  The clock of the two schedulers is a JavaScript number of hours: a rational that is a
  binary64 value, or \<open>None\<close> for \<^verbatim>\<open>NaN\<close> (see the section on numbers below).
\<close>

datatype cost = Amount int | NotANumber

type_synonym date = "int option"

datatype startval = StartStr string | StartDate date

record plannedAttraction =
  attraction :: attraction
  recReason :: "string option"
  recVisitOrder :: int
  recPriority :: int
  plannedStartTime :: startval
  plannedEndTime :: date
  estimatedCost :: cost
  priority :: int

text \<open>
  The returned trip plan: the provenance text \<^verbatim>\<open>aiProvider\<close>, the scheduled visits
  (\<^verbatim>\<open>itinerary[0].attractions\<close>, or \<^verbatim>\<open>plannedAttractions\<close> of the text extraction), the day's
  total time (the text extraction returns none) and the total cost.  The identifier, title,
  description and date fields of the result are not modelled.
\<close>

record tripPlan =
  aiProvider :: string
  attractions :: "plannedAttraction list"
  totalTime :: "int option"
  totalCost :: cost

section \<open>Price estimate and traffic lookup\<close>

definition priceRangeValues :: "(string \<times> int) list" where
  "priceRangeValues =
     [(''free'', 0), (''low'', 25), (''medium'', 125), (''high'', 350), (''luxury'', 750)]"

definition objectPrototypeKeys :: "string list" where
  \<comment> \<open>the property names every object literal inherits from \<^verbatim>\<open>Object.prototype\<close>\<close>
  "objectPrototypeKeys =
     [''constructor'', ''__proto__'', ''hasOwnProperty'', ''isPrototypeOf'',
      ''propertyIsEnumerable'', ''toLocaleString'', ''toString'', ''valueOf'',
      ''__defineGetter__'', ''__defineSetter__'', ''__lookupGetter__'', ''__lookupSetter__'']"

definition getPriceEstimate :: "string option \<Rightarrow> cost" where
  \<comment> \<open>\<^verbatim>\<open>priceRangeValues[priceRange] || 0\<close>: the bracket lookup finds the five own keys and
      the inherited members, which are functions or objects and so truthy\<close>
  "getPriceEstimate pr =
     (case pr of
        None \<Rightarrow> Amount 0
      | Some k \<Rightarrow>
          (case map_of priceRangeValues k of
             Some v \<Rightarrow> (if v = 0 then Amount 0 else Amount v)
           | None \<Rightarrow> if k \<in> set objectPrototypeKeys then NotANumber else Amount 0))"

fun jsPlus :: "cost \<Rightarrow> cost \<Rightarrow> cost" where
  \<comment> \<open>\<^verbatim>\<open>+\<close>: with an operand that is not a number the result is not one\<close>
  "jsPlus (Amount a) (Amount b) = Amount (a + b)"
| "jsPlus _ _ = NotANumber"

definition nameMatch :: "string \<Rightarrow> string \<Rightarrow> bool" where
  "nameMatch r n \<longleftrightarrow>
     includesStr (toLowerCase r) (toLowerCase n) \<or> includesStr (toLowerCase n) (toLowerCase r)"

definition getTrafficTime :: "route list option \<Rightarrow> string \<Rightarrow> string \<Rightarrow> int" where
  "getTrafficTime trafficMatrix fromAttractionName toAttractionName =
     (case trafficMatrix of
        None \<Rightarrow> 0
      | Some routes \<Rightarrow>
          (case find (\<lambda>r. nameMatch (routeFrom r) fromAttractionName
                         \<and> nameMatch (routeTo r) toAttractionName) routes of
             Some r \<Rightarrow> if trafficDuration r > 0 then trafficDuration r else 0
           | None \<Rightarrow> 0))"

section \<open>Numbers\<close>

text \<open>
  A JavaScript number is an IEEE 754 binary64 value.  A finite one is a rational, and
  \<open>fl\<close> is the rounding every arithmetic operation ends with: to the nearest value with a
  significand of 53 bits, a tie going to the even significand.  \<open>ilog2 x\<close> is the exponent
  of \<open>x\<close>, the integer part of its binary logarithm.  The exponent is not bounded here: the
  overflow to \<^verbatim>\<open>Infinity\<close> above \<open>2 ^ 1024\<close> and the subnormal numbers below \<open>2 ^ - 1022\<close>
  are not modelled.  Whole numbers read from the input (\<^verbatim>\<open>parseInt\<close>, the fields of the
  generator's answer and of the catalog) and their decimal text are exact, as they are in
  the language below \<open>2 ^ 53\<close>.
\<close>

definition pow2 :: "int \<Rightarrow> rat" where
  "pow2 e = (if 0 \<le> e then 2 ^ nat e else 1 / 2 ^ nat (- e))"

definition ilog2 :: "rat \<Rightarrow> int" where
  "ilog2 x =
     (let (p, q) = quotient_of x;
          e = bitlen \<bar>p\<bar> - bitlen q
      in if \<bar>x\<bar> < pow2 e then e - 1 else e)"

definition roundEven :: "rat \<Rightarrow> int" where
  \<comment> \<open>the nearest integer, a tie going to the even one\<close>
  "roundEven y =
     (let f = \<lfloor>y\<rfloor>;
          r = y - of_int f
      in if r < 1 / 2 then f
         else if 1 / 2 < r then f + 1
         else if even f then f else f + 1)"

definition fl :: "rat \<Rightarrow> rat" where
  "fl x =
     (if x = 0 then 0
      else let u = pow2 (ilog2 x - 52) in of_int (roundEven (x / u)) * u)"

section \<open>Clock arithmetic\<close>

text \<open>
  The time value of a \<^verbatim>\<open>Date\<close> may lie up to \<open>8.64 * 10 ^ 15\<close> milliseconds, that is
  144,000,000,000 minutes, on either side of the beginning of 1970; a \<^verbatim>\<open>Date\<close> set beyond
  that is invalid.  Dates are counted here from the local midnight of the current day,
  which the model does not know.  The upper limit is therefore taken one hundred years
  (52,596,000 minutes) short: a date that is valid here is valid in the service on every
  day of the first century after 1970, and the service accepts a few dates more.  The
  local clock is taken to run without changes (there is no daylight saving time in Hong
  Kong, where the service plans its days).
\<close>

definition timeClip :: "int \<Rightarrow> date" where
  "timeClip t = (if - 144000000000 \<le> t \<and> t \<le> 143947404000 then Some t else None)"

definition jsMod1 :: "rat \<Rightarrow> rat" where
  \<comment> \<open>\<^verbatim>\<open>x % 1\<close>: the remainder has the sign of \<open>x\<close>\<close>
  "jsMod1 x = (if 0 \<le> x then x - of_int \<lfloor>x\<rfloor> else x - of_int \<lceil>x\<rceil>)"

definition jsRound :: "rat \<Rightarrow> int" where
  \<comment> \<open>\<^verbatim>\<open>Math.round\<close>\<close>
  "jsRound x = \<lfloor>x + 1 / 2\<rfloor>"

definition jsTrunc :: "rat \<Rightarrow> int" where
  \<comment> \<open>the conversion of a date component to an integer\<close>
  "jsTrunc x = (if 0 \<le> x then \<lfloor>x\<rfloor> else \<lceil>x\<rceil>)"

definition setHours :: "int option \<Rightarrow> int option \<Rightarrow> date" where
  \<comment> \<open>\<^verbatim>\<open>d.setHours(h, m, 0, 0)\<close> on today's date\<close>
  "setHours h m = (case (h, m) of (Some h', Some m') \<Rightarrow> timeClip (60 * h' + m') | _ \<Rightarrow> None)"

definition addMinutes :: "date \<Rightarrow> int \<Rightarrow> date" where
  \<comment> \<open>\<^verbatim>\<open>d.setMinutes(d.getMinutes() + n)\<close>\<close>
  "addMinutes d n =
     (case d of None \<Rightarrow> None | Some t \<Rightarrow> timeClip (t - t mod 60 + (t mod 60 + n)))"

definition timeParts :: "string \<Rightarrow> int option \<times> int option" where
  \<comment> \<open>\<^verbatim>\<open>[hours, minutes] = s.split(':')\<close>, each read by \<^verbatim>\<open>parseInt\<close>\<close>
  "timeParts s =
     (case splitOn CHR '':'' s of
        [] \<Rightarrow> (None, None)
      | [h] \<Rightarrow> (parseInt h, parseIntArg None)
      | h # m # _ \<Rightarrow> (parseInt h, parseIntArg (Some m)))"

definition dateAt :: "string \<Rightarrow> date" where
  "dateAt s = setHours (fst (timeParts s)) (snd (timeParts s))"

definition hoursOf :: "string \<Rightarrow> rat option" where
  \<comment> \<open>\<^verbatim>\<open>parseInt(hours) + parseInt(minutes) / 60\<close>\<close>
  "hoursOf s =
     (case timeParts s of
        (Some h, Some m) \<Rightarrow> Some (fl (of_int h + fl (of_int m / 60)))
      | _ \<Rightarrow> None)"

definition formatTime :: "rat option \<Rightarrow> string" where
  \<comment> \<open>hours from \<^verbatim>\<open>Math.floor\<close>, minutes from \<^verbatim>\<open>Math.round((t % 1) * 60)\<close>, each padded to two\<close>
  "formatTime t =
     (case t of
        None \<Rightarrow> ''NaN:NaN''
      | Some x \<Rightarrow>
          padStart2 (showInt \<lfloor>x\<rfloor>) @ '':'' @ padStart2 (showInt (jsRound (fl (jsMod1 x * 60)))))"

definition orDefault :: "int option \<Rightarrow> int \<Rightarrow> int" where
  \<comment> \<open>\<^verbatim>\<open>a || b\<close> on an optional number: absent and 0 are falsy\<close>
  "orDefault a b = (case a of None \<Rightarrow> b | Some v \<Rightarrow> if v = 0 then b else v)"

definition orZero :: "int \<Rightarrow> int \<Rightarrow> int" where
  \<comment> \<open>\<^verbatim>\<open>a || b\<close> on a number\<close>
  "orZero a b = (if a = 0 then b else a)"

section \<open>Itinerary scheduler: processDirectTripPlan\<close>

definition findAttraction :: "attraction list \<Rightarrow> string \<Rightarrow> attraction option" where
  \<comment> \<open>\<^verbatim>\<open>availableAttractions.find(a => a.id === id)\<close>\<close>
  "findAttraction availableAttractions i = find (\<lambda>a. aid a = i) availableAttractions"

definition travelAfter ::
  "route list option \<Rightarrow> attraction \<Rightarrow> attraction option \<Rightarrow> int" where
  \<comment> \<open>\<^verbatim>\<open>travelTimeMinutes\<close>: 90 unless the matrix, this attraction and the next one found in the
      catalog give a positive traffic time\<close>
  "travelAfter trafficData a nextAttraction =
     (case (trafficData, nextAttraction) of
        (Some routes, Some nx) \<Rightarrow>
          (let trafficTime = getTrafficTime trafficData (name a) (name nx)
           in if trafficTime > 0 then trafficTime else 90)
      | _ \<Rightarrow> 90)"

definition firstStartText :: "selectedItem \<Rightarrow> string" where
  \<comment> \<open>\<^verbatim>\<open>selected.suggestedTime || '09:00'\<close>\<close>
  "firstStartText selected =
     (case suggestedTime selected of None \<Rightarrow> ''09:00'' | Some t \<Rightarrow> if t = [] then ''09:00'' else t)"

text \<open>
  One call of the \<^verbatim>\<open>map\<close> callback: the visit built for \<open>selected\<close> at position \<open>index\<close>
  and the value of \<^verbatim>\<open>currentTime\<close> afterwards.  \<open>None\<close> is the \<^verbatim>\<open>TypeError\<close> raised when the
  catalog is empty, so that \<^verbatim>\<open>attraction\<close> is undefined.
\<close>

definition visitDirect ::
  "attraction list \<Rightarrow> route list option \<Rightarrow> rat option \<Rightarrow> nat \<Rightarrow> selectedItem
     \<Rightarrow> selectedItem option \<Rightarrow> (plannedAttraction \<times> rat option) option" where
  "visitDirect availableAttractions trafficData currentTime index selected next =
     (case (case findAttraction availableAttractions (attractionId selected) of
              Some a \<Rightarrow> Some a
            | None \<Rightarrow> (case availableAttractions of [] \<Rightarrow> None | a # _ \<Rightarrow> Some a)) of
        None \<Rightarrow> None
      | Some a \<Rightarrow>
          let startTimeStr =
                (if index = 0 then firstStartText selected else formatTime currentTime);
              current = (if index = 0 then hoursOf startTimeStr else currentTime);
              startTime = dateAt startTimeStr;
              dur = orDefault (duration selected) (orZero (estimatedVisitTime a) 120);
              endTime = addMinutes startTime dur;
              current' =
                (case next of
                   None \<Rightarrow> current
                 | Some nx \<Rightarrow>
                     (let nextAttraction = findAttraction availableAttractions (attractionId nx);
                          travelTimeMinutes = travelAfter trafficData a nextAttraction
                      in map_option
                           (\<lambda>c. fl (c + fl (fl (of_int dur / 60) + fl (of_int travelTimeMinutes / 60))))
                           current))
          in Some (\<lparr>attraction = a,
                    recReason = reason selected,
                    recVisitOrder = orDefault (visitOrder selected) (int index + 1),
                    recPriority = int index + 1,
                    plannedStartTime = StartStr startTimeStr,
                    plannedEndTime = endTime,
                    estimatedCost = getPriceEstimate (priceRange a),
                    priority = orDefault (visitOrder selected) (int index + 1)\<rparr>,
                   current'))"

fun mapDirect ::
  "attraction list \<Rightarrow> route list option \<Rightarrow> rat option \<Rightarrow> nat \<Rightarrow> selectedItem list
     \<Rightarrow> plannedAttraction list option" where
  "mapDirect cat trafficData currentTime index [] = Some []"
| "mapDirect cat trafficData currentTime index (selected # rest) =
     (case visitDirect cat trafficData currentTime index selected
             (case rest of [] \<Rightarrow> None | nx # _ \<Rightarrow> Some nx) of
        None \<Rightarrow> None
      | Some (p, current') \<Rightarrow>
          (case mapDirect cat trafficData current' (Suc index) rest of
             None \<Rightarrow> None
           | Some ps \<Rightarrow> Some (p # ps)))"

definition sumCosts :: "plannedAttraction list \<Rightarrow> cost" where
  \<comment> \<open>\<^verbatim>\<open>reduce((total, pa) => total + pa.estimatedCost, 0)\<close>\<close>
  "sumCosts ps = foldl (\<lambda>total pa. jsPlus total (estimatedCost pa)) (Amount 0) ps"

definition processDirectTripPlan ::
  "aiTripPlan \<Rightarrow> attraction list \<Rightarrow> route list option \<Rightarrow> tripPlan option" where
  "processDirectTripPlan plan availableAttractions trafficData =
     (case mapDirect availableAttractions trafficData (Some 9) 0 (selectedAttractions plan) of
        None \<Rightarrow> None
      | Some planned \<Rightarrow>
          Some \<lparr>aiProvider = ''Local Llama 3.1'',
                attractions = planned,
                totalTime =
                  Some (orDefault (aiTotalDuration plan)
                          (foldl (\<lambda>total pa. total + orZero (estimatedVisitTime (attraction pa)) 120)
                             0 planned)),
                totalCost =
                  (case aiEstimatedCost plan of
                     None \<Rightarrow> sumCosts planned
                   | Some c \<Rightarrow> if c = 0 then sumCosts planned else Amount c)\<rparr>)"

section \<open>Heuristic extraction: extractTripPlanFromText\<close>

text \<open>
  \<^verbatim>\<open>String.prototype.split\<close> with a regular expression: \<open>cur\<close> is the piece collected since the
  last split.  A match that ends where the last split ended does not split again.
\<close>

function splitRx :: "rx \<Rightarrow> string \<Rightarrow> string \<Rightarrow> string list" where
  "splitRx r cur [] = [cur]"
| "splitRx r cur (c # s) =
     (case ms r (c # s) of
        [] \<Rightarrow> splitRx r (cur @ [c]) s
      | rg # _ \<Rightarrow>
          if length (fst rg) < length (c # s) then cur # splitRx r [] (fst rg)
          else if cur = [] then splitRx r [c] s
          else cur # splitRx r [c] s)"
  by pat_completeness auto
termination
  by (relation "measure (\<lambda>(r, cur, s). length s)") auto

definition quotedField :: "string \<Rightarrow> rx" where
  \<comment> \<open>\<^verbatim>\<open>"field":\s*"([^"]+)"\<close>\<close>
  \<open>quotedField f =
     seqs [Lit (''"'' @ f @ ''":''), star ws, Lit ''"'', Grp (plus1 (NCls ''"'')), Lit ''"'']\<close>

record extracted =
  exAttraction :: attraction
  exSuggestedTime :: string
  exDuration :: int
  exReason :: string

definition extractBlock :: "attraction list \<Rightarrow> string \<Rightarrow> extracted list" where
  \<comment> \<open>the body of the loop over the blocks: what one block adds to \<^verbatim>\<open>attractions\<close>\<close>
  \<open>extractBlock availableAttractions block =
     (if \<not> includesStr block ''attractionId'' then []
      else
        let idMatch = matchGroup1 (quotedField ''attractionId'') block;
            nameMatch = matchGroup1 (quotedField ''name'') block;
            timeMatch = matchGroup1 (quotedField ''suggestedTime'') block;
            durationMatch =
              matchGroup1 (seqs [Lit ''"duration":'', star ws, Grp (plus1 digit)]) block;
            reasonMatch = matchGroup1 (quotedField ''reason'') block
        in (case (idMatch, nameMatch) of
              (Some i, Some n) \<Rightarrow>
                (case findAttraction availableAttractions i of
                   None \<Rightarrow> []
                 | Some foundAttraction \<Rightarrow>
                     [\<lparr>exAttraction = foundAttraction,
                       exSuggestedTime = (case timeMatch of Some t \<Rightarrow> t | None \<Rightarrow> ''09:00''),
                       exDuration =
                         (case durationMatch of
                            Some d \<Rightarrow> (case parseInt d of Some v \<Rightarrow> v | None \<Rightarrow> 0)
                          | None \<Rightarrow> estimatedVisitTime foundAttraction),
                       exReason = (case reasonMatch of Some t \<Rightarrow> t | None \<Rightarrow> ''Selected by AI'')\<rparr>])
            | _ \<Rightarrow> []))\<close>

definition mentioned :: "string \<Rightarrow> attraction list \<Rightarrow> extracted list" where
  \<comment> \<open>the name-matching fallback: at most four attractions whose name occurs in the response\<close>
  "mentioned aiResponse availableAttractions =
     map (\<lambda>(index, a).
            \<lparr>exAttraction = a,
             exSuggestedTime = showNat (9 + index * 2) @ '':00'',
             exDuration = estimatedVisitTime a,
             exReason = ''Mentioned in AI response''\<rparr>)
         (enumerate 0
            (take 4 (filter (\<lambda>a. includesStr (toLowerCase aiResponse) (toLowerCase (name a)))
                       availableAttractions)))"

definition plannedOfExtracted :: "nat \<times> extracted \<Rightarrow> plannedAttraction" where
  "plannedOfExtracted = (\<lambda>(index, item).
     \<lparr>attraction = exAttraction item,
      recReason = Some (exReason item),
      recVisitOrder = int index + 1,
      recPriority = int index + 1,
      plannedStartTime = StartStr (exSuggestedTime item),
      plannedEndTime = addMinutes (dateAt (exSuggestedTime item)) (exDuration item),
      estimatedCost = getPriceEstimate (priceRange (exAttraction item)),
      priority = int index + 1\<rparr>)"

definition extractTripPlanFromText :: "string \<Rightarrow> attraction list \<Rightarrow> tripPlan option" where
  \<open>extractTripPlanFromText aiResponse availableAttractions =
     (let attractionBlocks =
            splitRx (Look (seqs [star ws, Lit ''{'', star ws, Lit ''"attractionId"''])) [] aiResponse;
          found = concat (map (extractBlock availableAttractions) attractionBlocks);
          items = (if found = [] then mentioned aiResponse availableAttractions else found)
      in if items = [] then None
         else
           let planned = map plannedOfExtracted (enumerate 0 items)
           in Some \<lparr>aiProvider = ''Local Llama 3.1 (Text Extraction)'',
                    attractions = planned,
                    totalTime = None,
                    totalCost = sumCosts planned\<rparr>)\<close>

section \<open>Fallback recommendation engine: getDirectFallbackTripPlan\<close>

datatype weatherPreference = AnyWeather | Indoor | Mixed

definition gt :: "int option \<Rightarrow> int \<Rightarrow> bool" where
  \<comment> \<open>\<^verbatim>\<open>x > n\<close> on a number that may be absent\<close>
  "gt x n = (case x of None \<Rightarrow> False | Some v \<Rightarrow> v > n)"

definition lt :: "int option \<Rightarrow> int \<Rightarrow> bool" where
  "lt x n = (case x of None \<Rightarrow> False | Some v \<Rightarrow> v < n)"

definition lowerOr :: "string option \<Rightarrow> string \<Rightarrow> string" where
  \<comment> \<open>the lower-cased text when it is present and not empty, else the alternative\<close>
  "lowerOr x alt = (case x of None \<Rightarrow> alt | Some t \<Rightarrow> if t = [] then alt else toLowerCase t)"

definition weatherConditionOf :: "weather \<Rightarrow> string" where
  "weatherConditionOf w =
     lowerOr (weatherCondition w) (lowerOr (condition w) (lowerOr (weatherDescription w) []))"

definition weatherPreferenceOf :: "realTimeData option \<Rightarrow> weatherPreference" where
  "weatherPreferenceOf rtd =
     (case rtd of
        None \<Rightarrow> AnyWeather
      | Some d \<Rightarrow>
          (case weatherData d of
             None \<Rightarrow> AnyWeather
           | Some w \<Rightarrow>
               let hasAlerts = (alerts d > 0);
                   wc = weatherConditionOf w
               in if includesStr wc ''rain'' \<or> includesStr wc ''storm''
                     \<or> includesStr wc ''shower'' \<or> hasAlerts then Indoor
                  else if gt (temperature w) 30 \<or> gt (uvIndex w) 8 then Mixed
                  else if lt (airQuality w) 50 then Indoor
                  else AnyWeather))"

definition wantsCulturalAndFood :: "string \<Rightarrow> bool" where
  "wantsCulturalAndFood text \<longleftrightarrow>
     includesStr text ''cultural'' \<and>
     (includesStr text ''dimsum'' \<or> includesStr text ''dim sum'' \<or> includesStr text ''food''
      \<or> includesStr text ''lunch'')"

definition culturalPick :: "weatherPreference \<Rightarrow> attraction \<Rightarrow> bool" where
  "culturalPick wp a \<longleftrightarrow>
     (if wp = Indoor \<and> category a \<notin> set [''museum'', ''cultural'', ''shopping''] then False
      else category a = ''cultural'' \<or> includesStr (toLowerCase (name a)) ''temple''
           \<or> includesStr (toLowerCase (name a)) ''museum''
           \<or> includesStr (toLowerCase (name a)) ''heritage'')"

definition foodPick :: "attraction \<Rightarrow> bool" where
  "foodPick a \<longleftrightarrow>
     category a = ''food'' \<or> includesStr (toLowerCase (name a)) ''market''
     \<or> includesStr (toLowerCase (name a)) ''restaurant''
     \<or> includesStr (toLowerCase (name a)) ''dim sum''
     \<or> includesStr (toLowerCase (name a)) ''tea''
     \<or> (case description a of None \<Rightarrow> False | Some d \<Rightarrow> includesStr (toLowerCase d) ''dim sum'')"

definition singlePick :: "string \<Rightarrow> weatherPreference \<Rightarrow> attraction \<Rightarrow> bool" where
  "singlePick text wp a \<longleftrightarrow>
     (if wp = Indoor \<and> category a \<notin> set [''museum'', ''cultural'', ''shopping'', ''food'']
      then False
      else if includesStr text ''cultural'' \<or> includesStr text ''harbor''
              \<or> includesStr text ''history'' then category a = ''cultural''
      else if includesStr text ''nature'' \<or> includesStr text ''peak''
              \<or> includesStr text ''mountain'' then wp \<noteq> Indoor \<and> category a = ''nature''
      else if includesStr text ''food'' \<or> includesStr text ''market'' \<or> includesStr text ''eat''
              \<or> includesStr text ''dimsum'' then category a = ''food''
      else True)"

definition ensureEnough :: "attraction list \<Rightarrow> attraction list \<Rightarrow> attraction list" where
  \<comment> \<open>the top-up after the keyword selection\<close>
  "ensureEnough availableAttractions selected =
     (if length selected = 0 then take 4 availableAttractions
      else if length selected < 3
      then selected @ take (4 - length selected)
                        (filter (\<lambda>a. aid a \<notin> set (map aid selected)) availableAttractions)
      else selected)"

definition selectFallback ::
  "string \<Rightarrow> attraction list \<Rightarrow> realTimeData option \<Rightarrow> attraction list" where
  "selectFallback userText availableAttractions rtd =
     (let text = toLowerCase userText;
          wp = weatherPreferenceOf rtd;
          selected =
            (if wantsCulturalAndFood text
             then take 2 (filter (culturalPick wp) availableAttractions)
                  @ take 2 (filter foodPick availableAttractions)
             else take 5 (filter (singlePick text wp) availableAttractions))
      in ensureEnough availableAttractions selected)"

definition travelHoursAfter :: "realTimeData option \<Rightarrow> attraction \<Rightarrow> attraction \<Rightarrow> rat" where
  "travelHoursAfter rtd a nextAttraction =
     (case rtd of
        None \<Rightarrow> 3 / 2
      | Some d \<Rightarrow>
          (case traffic d of
             None \<Rightarrow> 3 / 2
           | Some routes \<Rightarrow>
               (let trafficTime = getTrafficTime (traffic d) (name a) (name nextAttraction)
                in if trafficTime > 0 then fl (of_int trafficTime / 60) else 3 / 2)))"

fun mapFallback ::
  "realTimeData option \<Rightarrow> rat \<Rightarrow> nat \<Rightarrow> attraction list \<Rightarrow> plannedAttraction list" where
  "mapFallback rtd currentTime index [] = []"
| "mapFallback rtd currentTime index (a # rest) =
     (let startTime =
            setHours (Some \<lfloor>currentTime\<rfloor>) (Some (jsTrunc (fl (jsMod1 currentTime * 60))));
          visitDuration = orZero (estimatedVisitTime a) 120;
          endTime = addMinutes startTime visitDuration;
          current' =
            (case rest of
               [] \<Rightarrow> currentTime
             | nextAttraction # _ \<Rightarrow>
                 fl (currentTime
                     + fl (fl (of_int visitDuration / 60) + travelHoursAfter rtd a nextAttraction)))
      in \<lparr>attraction = a,
          recReason = Some ''Matches keywords from your request'',
          recVisitOrder = int index + 1,
          recPriority = int index + 1,
          plannedStartTime = StartDate startTime,
          plannedEndTime = endTime,
          estimatedCost = getPriceEstimate (priceRange a),
          priority = int index + 1\<rparr>
         # mapFallback rtd current' (Suc index) rest)"

definition getDirectFallbackTripPlan ::
  "string \<Rightarrow> attraction list \<Rightarrow> realTimeData option \<Rightarrow> tripPlan" where
  "getDirectFallbackTripPlan userText availableAttractions rtd =
     (let planned = mapFallback rtd 9 0 (selectFallback userText availableAttractions rtd)
      in \<lparr>aiProvider = ''Keyword Fallback'',
          attractions = planned,
          totalTime = Some (foldl (\<lambda>total pa. total + estimatedVisitTime (attraction pa)) 0 planned),
          totalCost = sumCosts planned\<rparr>)"

section \<open>Generation requester: generateDirectTripPlan\<close>

text \<open>
  The service object keeps \<^verbatim>\<open>currentRequest\<close> and \<^verbatim>\<open>isAvailable\<close> between calls.  What the
  outside world answers during one call is the environment: the clock, the two traffic
  fetches (the second is the one of the error handler), the generator's response text
  (\<open>None\<close> when the request fails) and \<^verbatim>\<open>JSON.parse\<close> (\<open>None\<close> when it raises).  The
  calls made to the outside are returned as a list of events.
\<close>

record service =
  currentRequest :: "string option"
  isAvailable :: bool

record env =
  now :: nat
  trafficFetch :: "route list option"
  trafficRefetch :: "route list option"
  generator :: "string option"
  jsonParse :: "string \<Rightarrow> aiTripPlan option"

datatype event = FetchTraffic | CallGenerator

definition requestKey :: "string \<Rightarrow> nat \<Rightarrow> string" where
  "requestKey userText t = substring0 50 userText @ ''-'' @ showNat t"

definition withTraffic :: "realTimeData option \<Rightarrow> route list option \<Rightarrow> realTimeData" where
  \<comment> \<open>\<^verbatim>\<open>{ ...realTimeData, traffic: trafficData }\<close>\<close>
  "withTraffic rtd trafficData =
     (case rtd of
        None \<Rightarrow> \<lparr>weatherData = None, alerts = 0, traffic = trafficData\<rparr>
      | Some d \<Rightarrow> d\<lparr>traffic := trafficData\<rparr>)"

definition repairAndSchedule ::
  "env \<Rightarrow> string \<Rightarrow> attraction list \<Rightarrow> tripPlan option" where
  \<comment> \<open>the part of the \<^verbatim>\<open>try\<close> block after the response has arrived; \<open>None\<close> is a raised error\<close>
  "repairAndSchedule e aiResponse availableAttractions =
     (case findJson aiResponse of
        None \<Rightarrow> None
      | Some jsonMatch \<Rightarrow>
          (case (case jsonParse e (cleanJson jsonMatch) of
                   None \<Rightarrow> None
                 | Some plan \<Rightarrow> processDirectTripPlan plan availableAttractions (trafficFetch e)) of
             Some result \<Rightarrow> Some result
           | None \<Rightarrow> extractTripPlanFromText aiResponse availableAttractions))"

definition generateDirectTripPlan ::
  "env \<Rightarrow> service \<Rightarrow> string \<Rightarrow> attraction list \<Rightarrow> realTimeData option
     \<Rightarrow> tripPlan \<times> service \<times> event list" where
  "generateDirectTripPlan e svc userText availableAttractions rtd =
     (let key = requestKey userText (now e)
      in if currentRequest svc = Some key
         then (getDirectFallbackTripPlan userText availableAttractions rtd, svc, [])
         else
           let svc' = svc\<lparr>currentRequest := Some key\<rparr>
           in if \<not> isAvailable svc
              then (getDirectFallbackTripPlan userText availableAttractions
                      (Some (withTraffic rtd (trafficFetch e))), svc', [FetchTraffic])
              else
                (case (case generator e of
                         None \<Rightarrow> None
                       | Some aiResponse \<Rightarrow> repairAndSchedule e aiResponse availableAttractions) of
                   Some result \<Rightarrow> (result, svc', [FetchTraffic, CallGenerator])
                 | None \<Rightarrow>
                     (getDirectFallbackTripPlan userText availableAttractions
                        (Some (withTraffic rtd (trafficRefetch e))), svc',
                      [FetchTraffic, CallGenerator, FetchTraffic])))"

section \<open>Readings of an itinerary and example data\<close>

fun amount :: "cost \<Rightarrow> int" where
  "amount (Amount v) = v"
| "amount NotANumber = 0"

definition startMinutes :: "plannedAttraction \<Rightarrow> date" where
  \<comment> \<open>the start of a visit as a date: a text start is read the way the scheduler itself
      reads it before it computes the end of the visit\<close>
  "startMinutes pa = (case plannedStartTime pa of StartDate d \<Rightarrow> d | StartStr s \<Rightarrow> dateAt s)"

fun increasing :: "date list \<Rightarrow> bool" where
  \<comment> \<open>every date is valid and each one is strictly before the next\<close>
  "increasing [] = True"
| "increasing [d] = (d \<noteq> None)"
| "increasing (d # e # ds) =
     (case (d, e) of (Some x, Some y) \<Rightarrow> x < y \<and> increasing (e # ds) | _ \<Rightarrow> False)"

definition allValid :: "date list \<Rightarrow> bool" where
  "allValid ds = list_all (\<lambda>d. d \<noteq> None) ds"

definition generatorOrdinals :: "aiTripPlan \<Rightarrow> int list" where
  \<comment> \<open>\<^verbatim>\<open>selected.visitOrder || (index + 1)\<close> for each selected item\<close>
  "generatorOrdinals plan =
     map (\<lambda>(index, selected). orDefault (visitOrder selected) (int index + 1))
       (enumerate 0 (selectedAttractions plan))"

definition extractedBlocks :: "string \<Rightarrow> attraction list \<Rightarrow> extracted list" where
  \<comment> \<open>what the loop of \<^verbatim>\<open>extractTripPlanFromText\<close> over the blocks of the response collects\<close>
  \<open>extractedBlocks aiResponse availableAttractions =
     concat (map (extractBlock availableAttractions)
               (splitRx (Look (seqs [star ws, Lit ''{'', star ws, Lit ''"attractionId"''])) []
                  aiResponse))\<close>

definition firstStartWellFormed :: "aiTripPlan \<Rightarrow> bool" where
  \<comment> \<open>the start text of the first selected item reads as hours and minutes, neither negative\<close>
  "firstStartWellFormed plan =
     (case selectedAttractions plan of
        [] \<Rightarrow> True
      | s # _ \<Rightarrow>
          (case timeParts (firstStartText s) of
             (Some h, Some m) \<Rightarrow> 0 \<le> h \<and> 0 \<le> m
           | _ \<Rightarrow> False))"

definition noNegativeDuration :: "aiTripPlan \<Rightarrow> bool" where
  "noNegativeDuration plan =
     list_all (\<lambda>s. case duration s of None \<Rightarrow> True | Some d \<Rightarrow> 0 \<le> d) (selectedAttractions plan)"

definition noNegativeVisitTime :: "attraction list \<Rightarrow> bool" where
  "noNegativeVisitTime cat = list_all (\<lambda>a. 0 \<le> estimatedVisitTime a) cat"

definition ordinals :: "nat \<Rightarrow> int list" where
  \<comment> \<open>1, 2, ..., n\<close>
  "ordinals n = map int [1..<Suc n]"














definition exTemple :: attraction where
  "exTemple = \<lparr>aid = ''a1'', name = ''Man Mo Temple'', description = None,
     category = ''cultural'', priceRange = Some ''free'', estimatedVisitTime = 60\<rparr>"

definition exMarket :: attraction where
  "exMarket = \<lparr>aid = ''a2'', name = ''Ladies Market'', description = None,
     category = ''food'', priceRange = Some ''low'', estimatedVisitTime = 90\<rparr>"

definition exPeak :: attraction where
  "exPeak = \<lparr>aid = ''a3'', name = ''Victoria Peak'', description = None,
     category = ''nature'', priceRange = Some ''medium'', estimatedVisitTime = 120\<rparr>"

definition exCatalog :: "attraction list" where
  "exCatalog = [exTemple, exMarket, exPeak]"

definition exClear :: realTimeData where
  "exClear = \<lparr>weatherData = Some \<lparr>weatherCondition = Some ''Clear'', condition = None,
       weatherDescription = None, temperature = Some 25, uvIndex = Some 5,
       airQuality = Some 80\<rparr>,
     alerts = 0, traffic = None\<rparr>"

definition exLunchRequest :: string where
  "exLunchRequest = ''cultural sites with lunch, budget 500''"

definition exItem :: "string \<Rightarrow> int \<Rightarrow> string \<Rightarrow> int \<Rightarrow> selectedItem" where
  "exItem i ord t d =
     \<lparr>attractionId = i, reason = None, visitOrder = Some ord, suggestedTime = Some t,
      duration = Some d\<rparr>"

definition exPlanWithTotals :: aiTripPlan where
  \<comment> \<open>one free attraction for an hour, with aggregate fields that do not match\<close>
  "exPlanWithTotals =
     \<lparr>selectedAttractions = [exItem ''a1'' 1 ''09:00'' 60],
      aiTotalDuration = Some 270, aiEstimatedCost = Some 800\<rparr>"

definition exPlanNoTotals :: aiTripPlan where
  "exPlanNoTotals =
     \<lparr>selectedAttractions = [exItem ''a2'' 1 ''09:00'' 45, exItem ''a3'' 2 ''11:00'' 100],
      aiTotalDuration = None, aiEstimatedCost = None\<rparr>"

definition exPlanUnknownId :: aiTripPlan where
  \<comment> \<open>the second identifier is not in the catalog\<close>
  "exPlanUnknownId =
     \<lparr>selectedAttractions = [exItem ''a2'' 1 ''09:00'' 120, exItem ''zz'' 2 ''12:30'' 60],
      aiTotalDuration = Some 180, aiEstimatedCost = Some 800\<rparr>"

definition exPlanOdd :: aiTripPlan where
  \<comment> \<open>a start text that is no time, and the same \<^verbatim>\<open>visitOrder\<close> twice\<close>
  "exPlanOdd =
     \<lparr>selectedAttractions = [exItem ''a1'' 5 ''morning'' 60, exItem ''a2'' 5 ''11:00'' 30],
      aiTotalDuration = None, aiEstimatedCost = None\<rparr>"

definition exPlanBeforeMidnight :: aiTripPlan where
  \<comment> \<open>a first start text with negative hours\<close>
  "exPlanBeforeMidnight =
     \<lparr>selectedAttractions = [exItem ''a1'' 1 ''-1:30'' 1, exItem ''a2'' 2 ''12:00'' 1],
      aiTotalDuration = None, aiEstimatedCost = None\<rparr>"

definition exPlanMinusMinutes :: aiTripPlan where
  \<comment> \<open>a first start text with negative minutes\<close>
  "exPlanMinusMinutes =
     \<lparr>selectedAttractions = [exItem ''a1'' 1 ''0:-30'' 1, exItem ''a2'' 2 ''12:00'' 1],
      aiTotalDuration = None, aiEstimatedCost = None\<rparr>"

definition exPlanNegativeDuration :: aiTripPlan where
  "exPlanNegativeDuration =
     \<lparr>selectedAttractions = [exItem ''a1'' 1 ''09:00'' (- 200), exItem ''a2'' 2 ''12:00'' 30],
      aiTotalDuration = None, aiEstimatedCost = None\<rparr>"

definition exPlanNoDuration :: aiTripPlan where
  \<comment> \<open>only the identifiers: every other field is left out\<close>
  "exPlanNoDuration =
     \<lparr>selectedAttractions =
        [\<lparr>attractionId = ''a1'', reason = None, visitOrder = None, suggestedTime = None,
          duration = None\<rparr>,
         \<lparr>attractionId = ''a2'', reason = None, visitOrder = None, suggestedTime = None,
          duration = None\<rparr>],
      aiTotalDuration = None, aiEstimatedCost = None\<rparr>"

definition exPlanFar :: aiTripPlan where
  \<comment> \<open>a first start beyond the range of \<^verbatim>\<open>Date\<close>\<close>
  "exPlanFar =
     \<lparr>selectedAttractions = [exItem ''a1'' 1 ''3000000000:00'' 60],
      aiTotalDuration = None, aiEstimatedCost = None\<rparr>"

definition exNegativeCatalog :: "attraction list" where
  "exNegativeCatalog = [exTemple\<lparr>estimatedVisitTime := - 200\<rparr>, exMarket, exPeak]"

definition exLongVisitCatalog :: "attraction list" where
  "exLongVisitCatalog = [exTemple\<lparr>estimatedVisitTime := 10000000000000\<rparr>, exMarket, exPeak]"

definition exPlainRequest :: string where
  "exPlainRequest = ''a day in the city''"

definition exShortHop :: "route list option" where
  "exShortHop =
     Some [\<lparr>routeFrom = ''Man Mo Temple'', routeTo = ''Ladies Market'', trafficDuration = 1\<rparr>]"

definition exTwoBlocks :: string where
  \<comment> \<open>an answer that is no JSON text, with two blocks, the later visit first\<close>
  \<open>exTwoBlocks =
     ''Plan: {"attractionId":"a2","name":"Ladies Market","suggestedTime":"14:05","duration":30} then {"attractionId":"a1","name":"Man Mo Temple","suggestedTime":"09:00","duration":60}''\<close>

definition exTraffic :: "route list option" where
  "exTraffic =
     Some [\<lparr>routeFrom = ''Ladies Market'', routeTo = ''Man Mo Temple'', trafficDuration = 95\<rparr>]"

definition exSameIdCatalog :: "attraction list" where
  \<comment> \<open>three entries under one identifier\<close>
  "exSameIdCatalog =
     [exTemple, exMarket\<lparr>aid := ''a1''\<rparr>, exPeak\<lparr>aid := ''a1''\<rparr>]"

definition exEnv :: "string option \<Rightarrow> env" where
  "exEnv response =
     \<lparr>now = 1700000000000, trafficFetch = None, trafficRefetch = None, generator = response,
      jsonParse = (\<lambda>text. None)\<rparr>"

definition exService :: "string option \<Rightarrow> service" where
  "exService pending = \<lparr>currentRequest = pending, isAvailable = True\<rparr>"

definition exMalformed :: string where
  \<open>exMalformed =
     ''{"selectedAttractions":[{"attractionId":"a1","name":"X","visitOrder":1,"suggestedTime":"09: "00"","duration":"120}]''\<close>

definition exEnvParsed :: env where
  \<comment> \<open>the generator answers with an object and \<^verbatim>\<open>JSON.parse\<close> yields \<open>exPlanUnknownId\<close>\<close>
  "exEnvParsed =
     \<lparr>now = 1700000000000, trafficFetch = None, trafficRefetch = None,
      generator = Some ''{}'', jsonParse = (\<lambda>text. Some exPlanUnknownId)\<rparr>"

section \<open>Facts about the fallback engine\<close>

lemma findJson_empty: "findJson [] = None"
  by code_simp

lemma repairAndSchedule_empty: "repairAndSchedule e [] cat = None"
  by (simp add: repairAndSchedule_def findJson_empty)

lemma attraction_mapFallback: "map attraction (mapFallback rtd t i xs) = xs"
  by (induction xs arbitrary: t i) (simp_all add: Let_def)

lemma fallback_attractions:
  "map attraction (attractions (getDirectFallbackTripPlan t cat rtd)) = selectFallback t cat rtd"
  by (simp add: getDirectFallbackTripPlan_def Let_def attraction_mapFallback)

lemma fallback_length:
  "length (attractions (getDirectFallbackTripPlan t cat rtd)) = length (selectFallback t cat rtd)"
  using fallback_attractions [of t cat rtd, THEN arg_cong, of length] by simp

lemma fallback_provider: "aiProvider (getDirectFallbackTripPlan t cat rtd) = ''Keyword Fallback''"
  by (simp add: getDirectFallbackTripPlan_def Let_def)

lemma filter_in_le_card:
  assumes "distinct (map f xs)" and "finite S"
  shows "length (filter (\<lambda>a. f a \<in> S) xs) \<le> card S"
proof -
  have d: "distinct (map f (filter (\<lambda>a. f a \<in> S) xs))"
    using assms(1) by (simp add: distinct_map_filter)
  have "length (filter (\<lambda>a. f a \<in> S) xs) = length (map f (filter (\<lambda>a. f a \<in> S) xs))"
    by simp
  also have "\<dots> = card (set (map f (filter (\<lambda>a. f a \<in> S) xs)))"
    using d by (simp only: distinct_card)
  also have "\<dots> \<le> card S"
    using assms(2) by (intro card_mono) auto
  finally show ?thesis .
qed

lemma filter_notin_ge:
  assumes "distinct (map f xs)"
  shows "length xs - length sel \<le> length (filter (\<lambda>a. f a \<notin> set (map f sel)) xs)"
proof -
  have "length (filter (\<lambda>a. f a \<in> set (map f sel)) xs) \<le> card (set (map f sel))"
    using assms by (rule filter_in_le_card) simp
  also have "\<dots> \<le> length sel"
    using card_length [of "map f sel"] by simp
  finally have "length (filter (\<lambda>a. f a \<in> set (map f sel)) xs) \<le> length sel" .
  moreover have "length xs = length (filter (\<lambda>a. f a \<in> set (map f sel)) xs)
                   + length (filter (\<lambda>a. f a \<notin> set (map f sel)) xs)"
    using sum_length_filter_compl [of "\<lambda>a. f a \<in> set (map f sel)" xs] by simp
  ultimately show ?thesis by linarith
qed

lemma ensureEnough_length:
  assumes "distinct (map aid cat)" and "3 \<le> length cat"
  shows "3 \<le> length (ensureEnough cat sel)"
proof -
  have "length cat - length sel \<le> length (filter (\<lambda>a. aid a \<notin> set (map aid sel)) cat)"
    using assms(1) by (rule filter_notin_ge)
  then show ?thesis
    using assms(2) by (auto simp: ensureEnough_def min_def)
qed

lemma selectFallback_length:
  assumes "distinct (map aid cat)" and "3 \<le> length cat"
  shows "3 \<le> length (selectFallback t cat rtd)"
  using assms by (simp add: selectFallback_def Let_def ensureEnough_length)

lemma empty_response_result:
  assumes "generator e = Some []"
  shows "\<exists>rtd'. fst (generateDirectTripPlan e svc t cat rtd) = getDirectFallbackTripPlan t cat rtd'"
  using assms by (auto simp: generateDirectTripPlan_def Let_def repairAndSchedule_empty)

lemma empty_response_path:
  "fst (generateDirectTripPlan (exEnv (Some [])) (exService None) t cat None)
     = getDirectFallbackTripPlan t cat (Some (withTraffic None None))"
  by (simp add: generateDirectTripPlan_def exEnv_def exService_def Let_def repairAndSchedule_empty)

lemma sameId_fallback_length:
  "length (attractions (getDirectFallbackTripPlan ''cultural tour'' exSameIdCatalog
                          (Some (withTraffic None None)))) = 1"
  by code_simp

section \<open>C3: a repeated fingerprint goes straight to the fallback\<close>

text \<open>
  C3.  When the fingerprint of a request (the first 50 characters of the text and the
  arrival time) equals the fingerprint stored by the service, \<open>generateDirectTripPlan\<close>
  returns the rule-based fallback plan for the request as it was given, leaves the service
  unchanged and makes no call to the outside: no traffic fetch and no generator call.
\<close>

theorem generateDirectTripPlan_duplicate:
  assumes "currentRequest svc = Some (requestKey userText (now e))"
  shows "generateDirectTripPlan e svc userText availableAttractions rtd =
           (getDirectFallbackTripPlan userText availableAttractions rtd, svc, [])"
  using assms by (simp add: generateDirectTripPlan_def)

theorem generateDirectTripPlan_duplicate_witness:
  "currentRequest (exService (Some ''cultural sites with lunch, budget 500-1700000000000''))
     = Some (requestKey exLunchRequest (now (exEnv (Some ''{}''))))
   \<and> generateDirectTripPlan (exEnv (Some ''{}''))
         (exService (Some ''cultural sites with lunch, budget 500-1700000000000''))
         exLunchRequest exCatalog (Some exClear)
       = (getDirectFallbackTripPlan exLunchRequest exCatalog (Some exClear),
          exService (Some ''cultural sites with lunch, budget 500-1700000000000''), [])"
proof -
  have k: "currentRequest (exService (Some ''cultural sites with lunch, budget 500-1700000000000''))
             = Some (requestKey exLunchRequest (now (exEnv (Some ''{}''))))"
    by (simp add: exService_def exEnv_def exLunchRequest_def requestKey_def substring0_def
          showNat.simps digitChar_def digits_def)
  show ?thesis
    using generateDirectTripPlan_duplicate [OF k, of exCatalog "Some exClear"] k by simp
qed

section \<open>C5: an empty generator response\<close>

text \<open>
  C5, as stated, fails: with an empty response the pipeline returns the rule-based fallback,
  but for a catalog of three entries that share one identifier the top-up, which skips
  every entry whose identifier is already selected, leaves a single visit.
\<close>

theorem empty_response_same_id_counterexample:
  "length exSameIdCatalog = 3 \<and> generator (exEnv (Some [])) = Some [] \<and>
   length (attractions (fst (generateDirectTripPlan (exEnv (Some [])) (exService None)
                               ''cultural tour'' exSameIdCatalog None))) = 1"
  by (simp add: empty_response_path sameId_fallback_length)
     (simp add: exSameIdCatalog_def exEnv_def)

text \<open>
  C5, amended.  If the generator returns the empty string, \<open>generateDirectTripPlan\<close>
  returns a plan (it is a total function of its inputs: no error reaches the caller), the
  plan's provenance is the rule-based fallback, and it has at least three visits whenever
  the catalog has at least three attractions with pairwise distinct identifiers.
\<close>

theorem empty_response_fallback:
  assumes "generator e = Some []"
  shows "aiProvider (fst (generateDirectTripPlan e svc userText availableAttractions rtd))
           = ''Keyword Fallback''
         \<and> (distinct (map aid availableAttractions) \<and> 3 \<le> length availableAttractions
              \<longrightarrow> 3 \<le> length (attractions
                          (fst (generateDirectTripPlan e svc userText availableAttractions rtd))))"
proof -
  obtain rtd' where r: "fst (generateDirectTripPlan e svc userText availableAttractions rtd)
                           = getDirectFallbackTripPlan userText availableAttractions rtd'"
    using empty_response_result [OF assms] by blast
  show ?thesis
    unfolding r by (simp add: fallback_provider fallback_length selectFallback_length)
qed

theorem empty_response_fallback_witness:
  "generator (exEnv (Some [])) = Some []
   \<and> aiProvider (fst (generateDirectTripPlan (exEnv (Some [])) (exService None) exLunchRequest
                         exCatalog (Some exClear))) = ''Keyword Fallback''
   \<and> distinct (map aid exCatalog) \<and> 3 \<le> length exCatalog
   \<and> 3 \<le> length (attractions (fst (generateDirectTripPlan (exEnv (Some [])) (exService None)
                                       exLunchRequest exCatalog (Some exClear))))"
proof -
  have g: "generator (exEnv (Some [])) = Some []"
    by (simp add: exEnv_def)
  have d: "distinct (map aid exCatalog) \<and> 3 \<le> length exCatalog"
    by (simp add: exCatalog_def exTemple_def exMarket_def exPeak_def)
  show ?thesis
    using empty_response_fallback [OF g, of "exService None" exLunchRequest exCatalog "Some exClear"]
      g d
    by simp
qed

section \<open>C9: every scheduled attraction comes from the catalog\<close>

lemma find_in_set: "find P xs = Some a \<Longrightarrow> a \<in> set xs"
  by (auto simp: find_Some_iff)

lemma visitDirect_attraction:
  assumes "visitDirect cat tr ct i s nx = Some (p, ct')"
  shows "attraction p \<in> set cat"
  using assms
  by (auto simp: visitDirect_def findAttraction_def Let_def
           split: option.splits list.splits dest: find_in_set)

lemma mapDirect_attractions:
  "mapDirect cat tr ct i ss = Some ps \<Longrightarrow> attraction ` set ps \<subseteq> set cat"
proof (induction ss arbitrary: ct i ps)
  case Nil
  then show ?case by simp
next
  case (Cons s ss)
  from Cons.prems obtain p ct' ps' where
    v: "visitDirect cat tr ct i s (case ss of [] \<Rightarrow> None | nx # _ \<Rightarrow> Some nx) = Some (p, ct')"
    and m: "mapDirect cat tr ct' (Suc i) ss = Some ps'" and ps: "ps = p # ps'"
    by (auto split: option.splits prod.splits)
  show ?case
    using visitDirect_attraction [OF v] Cons.IH [OF m] ps by auto
qed

lemma processDirectTripPlan_attractions:
  "processDirectTripPlan plan cat tr = Some r \<Longrightarrow> attraction ` set (attractions r) \<subseteq> set cat"
  by (auto simp: processDirectTripPlan_def split: option.splits dest!: mapDirect_attractions)

lemma extractBlock_attractions: "exAttraction ` set (extractBlock cat b) \<subseteq> set cat"
proof (cases "matchGroup1 (quotedField ''attractionId'') b")
  case None
  then show ?thesis by (simp add: extractBlock_def Let_def)
next
  case (Some i)
  note i = this
  show ?thesis
  proof (cases "matchGroup1 (quotedField ''name'') b")
    case None
    with i show ?thesis by (simp add: extractBlock_def Let_def)
  next
    case (Some n)
    show ?thesis
    proof (cases "findAttraction cat i")
      case None
      with i Some show ?thesis by (simp add: extractBlock_def Let_def)
    next
      case (Some a)
      then have "a \<in> set cat"
        by (simp add: findAttraction_def find_in_set)
      with i \<open>matchGroup1 (quotedField ''name'') b = Some n\<close> Some show ?thesis
        by (simp add: extractBlock_def Let_def)
    qed
  qed
qed

lemma map_snd_enumerate: "map snd (enumerate n xs) = xs"
  by (induction xs arbitrary: n) simp_all

lemma mentioned_attractions: "exAttraction ` set (mentioned resp cat) \<subseteq> set cat"
proof -
  have "map exAttraction (mentioned resp cat)
          = map snd (enumerate 0 (take 4 (filter (\<lambda>a. includesStr (toLowerCase resp) (toLowerCase (name a))) cat)))"
    by (simp add: mentioned_def comp_def case_prod_beta)
  then have "set (map exAttraction (mentioned resp cat))
          = set (take 4 (filter (\<lambda>a. includesStr (toLowerCase resp) (toLowerCase (name a))) cat))"
    by (simp only: map_snd_enumerate)
  then show ?thesis
    by (auto dest!: in_set_takeD)
qed

lemma plannedOfExtracted_attraction: "attraction (plannedOfExtracted (i, x)) = exAttraction x"
  by (simp add: plannedOfExtracted_def)

lemma extract_attractions:
  assumes "extractTripPlanFromText resp cat = Some r"
  shows "attraction ` set (attractions r) \<subseteq> set cat"
proof -
  define items where \<open>items =
     (let found = concat (map (extractBlock cat)
              (splitRx (Look (seqs [star ws, Lit ''{'', star ws, Lit ''"attractionId"''])) [] resp))
      in if found = [] then mentioned resp cat else found)\<close>
  have sub: "exAttraction ` set items \<subseteq> set cat"
    using extractBlock_attractions [of cat] mentioned_attractions [of resp cat]
    by (auto simp: items_def Let_def)
  have r: "attractions r = map plannedOfExtracted (enumerate 0 items)"
    using assms by (auto simp: extractTripPlanFromText_def items_def Let_def split: if_splits)
  show ?thesis
    unfolding r using sub
    by (auto simp: plannedOfExtracted_attraction in_set_enumerate_eq)
qed

lemma ensureEnough_subset: "set sel \<subseteq> set cat \<Longrightarrow> set (ensureEnough cat sel) \<subseteq> set cat"
  by (auto simp: ensureEnough_def dest: in_set_takeD)

lemma selectFallback_subset: "set (selectFallback t cat rtd) \<subseteq> set cat"
  unfolding selectFallback_def Let_def
  by (rule ensureEnough_subset) (auto dest: in_set_takeD)

lemma fallback_subset: "attraction ` set (attractions (getDirectFallbackTripPlan t cat rtd)) \<subseteq> set cat"
proof -
  have "attraction ` set (attractions (getDirectFallbackTripPlan t cat rtd))
          = set (map attraction (attractions (getDirectFallbackTripPlan t cat rtd)))"
    by simp
  also have "\<dots> = set (selectFallback t cat rtd)"
    by (simp only: fallback_attractions)
  finally show ?thesis using selectFallback_subset [of t cat rtd] by simp
qed

lemma repairAndSchedule_attractions:
  "repairAndSchedule e resp cat = Some r \<Longrightarrow> attraction ` set (attractions r) \<subseteq> set cat"
  unfolding repairAndSchedule_def
  by (auto split: option.splits dest!: processDirectTripPlan_attractions extract_attractions)

lemma parsed_response_path:
  "fst (generateDirectTripPlan exEnvParsed (exService None) t cat rtd)
     = (case processDirectTripPlan exPlanUnknownId cat None of
          Some r \<Rightarrow> r
        | None \<Rightarrow>
            (case extractTripPlanFromText ''{}'' cat of
               Some r \<Rightarrow> r
             | None \<Rightarrow> getDirectFallbackTripPlan t cat (Some (withTraffic rtd None))))"
proof -
  have j: "findJson ''{}'' = Some ''{}''"
    by code_simp
  show ?thesis
    by (simp add: generateDirectTripPlan_def exEnvParsed_def exService_def Let_def
          repairAndSchedule_def j split: option.splits)
qed

lemma unknownId_ids:
  "map_option (\<lambda>r. map (\<lambda>pa. aid (attraction pa)) (attractions r))
     (processDirectTripPlan exPlanUnknownId exCatalog None) = Some [''a2'', ''a1'']"
  by code_simp

text \<open>
  C9.  Whatever the generator answers and whatever \<^verbatim>\<open>JSON.parse\<close> makes of it, every
  attraction of the plan that \<open>generateDirectTripPlan\<close> returns (scheduled generator output,
  text extraction or rule-based fallback) is an element of the catalog given with the
  request.  An identifier that the generator made up is replaced by the first catalog entry
  by the scheduler and dropped by the text extraction.  With an empty catalog the returned
  plan has no visit, so the statement needs no assumption on the catalog.
\<close>

theorem itinerary_attractions_from_catalog:
  "attraction ` set (attractions (fst (generateDirectTripPlan e svc userText availableAttractions rtd)))
     \<subseteq> set availableAttractions"
proof -
  let ?r = "fst (generateDirectTripPlan e svc userText availableAttractions rtd)"
  have "(\<exists>rtd'. ?r = getDirectFallbackTripPlan userText availableAttractions rtd')
        \<or> (\<exists>resp. repairAndSchedule e resp availableAttractions = Some ?r)"
    by (auto simp: generateDirectTripPlan_def Let_def split: option.splits)
  then show ?thesis
    using fallback_subset repairAndSchedule_attractions by metis
qed

theorem itinerary_attractions_from_catalog_witness:
  "attraction ` set (attractions (fst (generateDirectTripPlan exEnvParsed (exService None)
                                          exLunchRequest exCatalog (Some exClear))))
     \<subseteq> set exCatalog
   \<and> map attractionId (selectedAttractions exPlanUnknownId) = [''a2'', ''zz'']
   \<and> map (\<lambda>pa. aid (attraction pa))
         (attractions (fst (generateDirectTripPlan exEnvParsed (exService None)
                              exLunchRequest exCatalog (Some exClear)))) = [''a2'', ''a1'']"
proof -
  have ids: "map attractionId (selectedAttractions exPlanUnknownId) = [''a2'', ''zz'']"
    by (simp add: exPlanUnknownId_def exItem_def)
  obtain r where r: "processDirectTripPlan exPlanUnknownId exCatalog None = Some r"
    and m: "map (\<lambda>pa. aid (attraction pa)) (attractions r) = [''a2'', ''a1'']"
    using unknownId_ids by (cases "processDirectTripPlan exPlanUnknownId exCatalog None") auto
  have "fst (generateDirectTripPlan exEnvParsed (exService None) exLunchRequest exCatalog
               (Some exClear)) = r"
    by (simp add: parsed_response_path r)
  with m ids show ?thesis
    using itinerary_attractions_from_catalog
            [of exEnvParsed "exService None" exLunchRequest exCatalog "Some exClear"]
    by simp
qed

section \<open>C1: the totals of a scheduled generator plan\<close>

lemma foldl_plus_sum: "foldl (\<lambda>t pa. t + f pa) (a::int) ps = a + sum_list (map f ps)"
  by (induction ps arbitrary: a) simp_all

lemma foldl_jsPlus_numeric:
  assumes "list_all (\<lambda>pa. estimatedCost pa \<noteq> NotANumber) ps"
  shows "foldl (\<lambda>total pa. jsPlus total (estimatedCost pa)) (Amount a) ps
           = Amount (a + sum_list (map (\<lambda>pa. amount (estimatedCost pa)) ps))"
  using assms
proof (induction ps arbitrary: a)
  case Nil
  then show ?case by simp
next
  case (Cons p ps)
  then obtain v where v: "estimatedCost p = Amount v"
    by (cases "estimatedCost p") auto
  with Cons show ?case by simp
qed

lemma sumCosts_numeric:
  "list_all (\<lambda>pa. estimatedCost pa \<noteq> NotANumber) ps
     \<Longrightarrow> sumCosts ps = Amount (sum_list (map (\<lambda>pa. amount (estimatedCost pa)) ps))"
  by (simp add: sumCosts_def foldl_jsPlus_numeric)

lemma plan_with_totals_result:
  "map_option (\<lambda>r. (totalCost r, sumCosts (attractions r), totalTime r,
                     map (\<lambda>pa. estimatedVisitTime (attraction pa)) (attractions r)))
     (processDirectTripPlan exPlanWithTotals exCatalog None)
   = Some (Amount 800, Amount 0, Some 270, [60])"
  by code_simp

lemma plan_no_totals_result:
  "map_option (\<lambda>r. (map (\<lambda>pa. estimatedCost pa) (attractions r),
                     map (\<lambda>pa. estimatedVisitTime (attraction pa)) (attractions r)))
     (processDirectTripPlan exPlanNoTotals exCatalog None)
   = Some ([Amount 25, Amount 125], [90, 120])"
  by code_simp

text \<open>
  C1, as stated, fails: \<open>processDirectTripPlan\<close> returns the generator's own
  \<^verbatim>\<open>estimatedCost\<close> and \<^verbatim>\<open>totalDuration\<close> whenever they are present and not zero.  For a plan of
  one free attraction visited for an hour, with aggregates 800 and 270, the total cost is
  800 (the per-visit costs add up to 0) and the total time is 270.
\<close>

theorem processDirectTripPlan_trusts_aggregates_counterexample:
  "map_option (\<lambda>r. (totalCost r, sumCosts (attractions r), totalTime r,
                     map (\<lambda>pa. estimatedVisitTime (attraction pa)) (attractions r)))
     (processDirectTripPlan exPlanWithTotals exCatalog None)
   = Some (Amount 800, Amount 0, Some 270, [60])"
  by (rule plan_with_totals_result)

text \<open>
  C1, amended.  For every itinerary produced by \<open>processDirectTripPlan\<close>: the total cost is
  the generator's \<^verbatim>\<open>estimatedCost\<close> when that field is present and not zero, and otherwise
  the sum of the per-visit cost estimates (a number, the arithmetic sum, when every
  estimate is a number); the total time is the generator's \<^verbatim>\<open>totalDuration\<close> when present
  and not zero, and otherwise the sum over the visits of the attraction's catalog visit
  time (120 where that is 0).
\<close>

theorem processDirectTripPlan_totals:
  assumes "processDirectTripPlan plan availableAttractions trafficData = Some r"
  shows "totalCost r =
           (case aiEstimatedCost plan of
              None \<Rightarrow> sumCosts (attractions r)
            | Some c \<Rightarrow> if c = 0 then sumCosts (attractions r) else Amount c)
         \<and> totalTime r =
           Some (orDefault (aiTotalDuration plan)
                   (sum_list (map (\<lambda>pa. orZero (estimatedVisitTime (attraction pa)) 120) (attractions r))))
         \<and> (list_all (\<lambda>pa. estimatedCost pa \<noteq> NotANumber) (attractions r)
              \<longrightarrow> sumCosts (attractions r)
                    = Amount (sum_list (map (\<lambda>pa. amount (estimatedCost pa)) (attractions r))))"
  using assms
  by (auto simp: processDirectTripPlan_def foldl_plus_sum sumCosts_numeric split: option.splits)

theorem processDirectTripPlan_totals_witness:
  "\<exists>r. processDirectTripPlan exPlanNoTotals exCatalog None = Some r
       \<and> aiEstimatedCost exPlanNoTotals = None \<and> aiTotalDuration exPlanNoTotals = None
       \<and> map estimatedCost (attractions r) = [Amount 25, Amount 125]
       \<and> totalCost r = Amount 150 \<and> totalTime r = Some 210"
proof -
  obtain r where r: "processDirectTripPlan exPlanNoTotals exCatalog None = Some r"
    and c: "map (\<lambda>pa. estimatedCost pa) (attractions r) = [Amount 25, Amount 125]"
    and v: "map (\<lambda>pa. estimatedVisitTime (attraction pa)) (attractions r) = [90, 120]"
    using plan_no_totals_result
    by (cases "processDirectTripPlan exPlanNoTotals exCatalog None") auto
  from c obtain p q where pq: "attractions r = [p, q]"
    "estimatedCost p = Amount 25" "estimatedCost q = Amount 125"
    by auto
  from v pq have "estimatedVisitTime (attraction p) = 90" "estimatedVisitTime (attraction q) = 120"
    by auto
  with pq processDirectTripPlan_totals [OF r]
  have "totalCost r = Amount 150 \<and> totalTime r = Some 210"
    by (simp add: exPlanNoTotals_def orDefault_def orZero_def)
  with r c show ?thesis
    by (auto simp: exPlanNoTotals_def)
qed

section \<open>C10: the price estimate of an unknown tier\<close>

lemma getPriceEstimate_values:
  "getPriceEstimate pr \<in> {Amount 0, Amount 25, Amount 125, Amount 350, Amount 750, NotANumber}"
  by (auto simp: getPriceEstimate_def priceRangeValues_def split: option.splits)

lemma getPriceEstimate_other:
  assumes "k \<notin> set (map fst priceRangeValues)" and "k \<notin> set objectPrototypeKeys"
  shows "getPriceEstimate (Some k) = Amount 0"
  using assms by (simp add: getPriceEstimate_def priceRangeValues_def split: option.splits)

text \<open>
  C10 says that \<open>getPriceEstimate\<close> returns 0 for every price tier outside free, low,
  medium, high and luxury.  The lookup \<^verbatim>\<open>priceRangeValues[priceRange]\<close> also finds the members
  that the table inherits from \<^verbatim>\<open>Object.prototype\<close>: for the tier text \<^verbatim>\<open>constructor\<close> the
  value found is a function, which is truthy, so it is returned instead of 0 and the
  per-visit cost estimate is not a number.
\<close>

theorem getPriceEstimate_inherited_key:
  "''constructor'' \<notin> set (map fst priceRangeValues)
   \<and> getPriceEstimate (Some ''constructor'') = NotANumber"
  by (simp add: getPriceEstimate_def priceRangeValues_def objectPrototypeKeys_def)

section \<open>C2: travel time between consecutive visits\<close>

text \<open>
  C2 asks that each visit starts no earlier than the end of the previous one plus the
  travel time between the two attractions, where the travel time is the traffic lookup
  when that is positive.  In \<open>processDirectTripPlan\<close> the travel time to the next visit is
  looked up only when the next identifier is found in the catalog, while the next visit
  itself falls back to the first catalog entry.  For a plan whose second identifier is
  unknown, the second visit is at Man Mo Temple (the first entry) and starts at 12:30,
  750 minutes into the day; the first visit, at Ladies Market, ends at minute 660 and the
  traffic matrix gives 95 minutes from Ladies Market to Man Mo Temple, so the claim asks
  for a start at minute 755 or later.
\<close>

theorem processDirectTripPlan_unknown_next_id:
  "map_option (\<lambda>r. map (\<lambda>pa. (name (attraction pa), plannedStartTime pa, startMinutes pa,
                                 plannedEndTime pa)) (attractions r))
     (processDirectTripPlan exPlanUnknownId exCatalog exTraffic)
   = Some [(''Ladies Market'', StartStr ''09:00'', Some 540, Some 660),
           (''Man Mo Temple'', StartStr ''12:30'', Some 750, Some 810)]
   \<and> getTrafficTime exTraffic ''Ladies Market'' ''Man Mo Temple'' = 95"
  by code_simp

section \<open>C6: a request for cultural sites and lunch\<close>






section \<open>C7: applying the text normalisation twice\<close>

subsection \<open>What a match looks like\<close>
















subsection \<open>The weight of a replacement\<close>











subsection \<open>The passes that can replace a match by itself\<close>











lemma same_suffix: "m @ q = m' @ q \<Longrightarrow> m = m'"
  by simp















subsection \<open>Example runs\<close>











section \<open>C8: the malformed response of the scenario\<close>

lemma malformed_found:
  \<open>findJson exMalformed =
     Some ''{"selectedAttractions":[{"attractionId":"a1","name":"X","visitOrder":1,"suggestedTime":"09: "00"","duration":"120}],"totalDuration":270,"estimatedCost":800}''\<close>
  by code_simp

lemma malformed_cleaned:
  \<open>cleanJson ''{"selectedAttractions":[{"attractionId":"a1","name":"X","visitOrder":1,"suggestedTime":"09: "00"","duration":"120}],"totalDuration":270,"estimatedCost":800}''
     = ''{"selectedAttractions":[{"attractionId":"a1","name":"X","visitOrder":1,"suggestedTime":"09: "00","duration":"120}],"totalDuration":270,"estimatedCost":800}''\<close>
  by code_simp

lemma malformed_extracted:
  \<open>map_option (\<lambda>r. map (\<lambda>pa. (aid (attraction pa), plannedStartTime pa, plannedEndTime pa))
                     (attractions r))
     (extractTripPlanFromText exMalformed exCatalog)
   = Some [(''a1'', StartStr ''09: '', None)]\<close>
  by code_simp

text \<open>
  C8 expects that the text of the scenario deserialises, after the normalisation passes,
  into one item with time \<^verbatim>\<open>09:00\<close> and the number 120.  The text handed to \<^verbatim>\<open>JSON.parse\<close> is
  the reconstructed object with the passes applied: the passes that repair a split time and
  a quoted number all look for a colon, a space and a quote, which this compact text does
  not contain (and the pass that normalises the spacing after a colon needs at least one
  white-space character there), so the time stays split and the number keeps its opening
  quote; only the doubled quote is collapsed.  That text is not JSON.  The text extraction
  that follows a failed parse finds one item for \<^verbatim>\<open>a1\<close> with the time text \<^verbatim>\<open>09: \<close> and no valid
  end time.
\<close>

theorem malformed_time_not_repaired:
  \<open>repairedJson exMalformed =
     Some ''{"selectedAttractions":[{"attractionId":"a1","name":"X","visitOrder":1,"suggestedTime":"09: "00","duration":"120}],"totalDuration":270,"estimatedCost":800}''
   \<and> map_option (\<lambda>r. map (\<lambda>pa. (aid (attraction pa), plannedStartTime pa, plannedEndTime pa))
                        (attractions r))
        (extractTripPlanFromText exMalformed exCatalog)
      = Some [(''a1'', StartStr ''09: '', None)]\<close>
  by (simp add: repairedJson_def malformed_found malformed_cleaned malformed_extracted)

section \<open>C4: ordinals and start times\<close>

subsection \<open>Rounding\<close>

lemma pow2_pos: "0 < pow2 e"
  by (simp add: pow2_def)

lemma pow2_diff: "pow2 (a - b) = pow2 a / pow2 b"
proof -
  have "pow2 e = 2 powi e" for e
    by (simp add: pow2_def power_int_def inverse_eq_divide power_one_over)
  then show ?thesis by (simp add: power_int_diff)
qed

lemma pow2_nat: "pow2 (int n) = 2 ^ n"
  by (simp add: pow2_def)

lemma roundEven_close: "\<bar>of_int (roundEven y) - y\<bar> \<le> 1 / 2"
proof -
  have "of_int \<lfloor>y\<rfloor> \<le> y" "y < of_int \<lfloor>y\<rfloor> + 1" by linarith+
  then show ?thesis
    unfolding roundEven_def Let_def
    by (simp only: split: if_split) (auto simp: abs_if; linarith)
qed

lemma ilog2_le:
  assumes "x \<noteq> 0"
  shows "pow2 (ilog2 x) \<le> \<bar>x\<bar>"
proof -
  obtain p q where pq: "quotient_of x = (p, q)" by (cases "quotient_of x")
  have q: "0 < q" using quotient_of_denom_pos [OF pq] .
  have x: "x = of_int p / of_int q" using quotient_of_div [OF pq] .
  have p: "0 < \<bar>p\<bar>" using assms x by auto
  let ?e = "bitlen \<bar>p\<bar> - bitlen q"
  show ?thesis
  proof (cases "\<bar>x\<bar> < pow2 ?e")
    case False
    then show ?thesis by (simp add: ilog2_def pq)
  next
    case True
    have A: "(2::int) ^ nat (bitlen \<bar>p\<bar> - 1) \<le> \<bar>p\<bar>" using bitlen_bounds [OF p] by simp
    have B: "q < 2 ^ nat (bitlen q)" using bitlen_bounds [OF q] by simp
    have bp: "1 \<le> bitlen \<bar>p\<bar>"
      using p bitlen_eq_zero_iff [of "\<bar>p\<bar>"] bitlen_nonneg [of "\<bar>p\<bar>"] by linarith
    have bq: "0 \<le> bitlen q" by (rule bitlen_nonneg)
    have A': "pow2 (bitlen \<bar>p\<bar> - 1) \<le> of_int \<bar>p\<bar>"
    proof -
      have "pow2 (bitlen \<bar>p\<bar> - 1) = of_int (2 ^ nat (bitlen \<bar>p\<bar> - 1))"
        using bp by (simp add: pow2_def)
      also have "\<dots> \<le> of_int \<bar>p\<bar>" using A by (simp only: of_int_le_iff)
      finally show ?thesis .
    qed
    have B': "of_int q \<le> pow2 (bitlen q)"
    proof -
      have "q \<le> 2 ^ nat (bitlen q)" using B by simp
      then have "(of_int q :: rat) \<le> of_int (2 ^ nat (bitlen q))" by (simp only: of_int_le_iff)
      also have "\<dots> = pow2 (bitlen q)" using bq by (simp add: pow2_def)
      finally show ?thesis .
    qed
    have "pow2 (?e - 1) = pow2 (bitlen \<bar>p\<bar> - 1) / pow2 (bitlen q)"
      using pow2_diff [of "bitlen \<bar>p\<bar> - 1" "bitlen q"] by (simp add: algebra_simps)
    also have "\<dots> \<le> of_int \<bar>p\<bar> / of_int q"
      using A' B' q pow2_pos [of "bitlen q"] pow2_pos [of "bitlen \<bar>p\<bar> - 1"]
      by (intro frac_le) auto
    also have "\<dots> = \<bar>x\<bar>" using q by (simp add: x)
    finally show ?thesis using True by (simp add: ilog2_def pq)
  qed
qed

lemma fl_error: "\<bar>fl x - x\<bar> \<le> \<bar>x\<bar> / 2 ^ 53"
proof (cases "x = 0")
  case True
  then show ?thesis by (simp add: fl_def)
next
  case False
  define u where "u = pow2 (ilog2 x - 52)"
  have u: "0 < u" by (simp add: u_def pow2_pos)
  have "u = pow2 (ilog2 x) / 2 ^ 52"
    unfolding u_def using pow2_diff [of "ilog2 x" 52] pow2_nat [of 52] by simp
  then have ub: "u \<le> \<bar>x\<bar> / 2 ^ 52"
    using ilog2_le [OF False] by (simp add: divide_right_mono)
  have "fl x - x = (of_int (roundEven (x / u)) - x / u) * u"
    using False u by (simp add: fl_def u_def [symmetric] Let_def field_simps)
  then have "\<bar>fl x - x\<bar> = \<bar>of_int (roundEven (x / u)) - x / u\<bar> * u"
    using u by (simp add: abs_mult)
  also have "\<dots> \<le> 1 / 2 * u"
    using roundEven_close [of "x / u"] u by (intro mult_right_mono) auto
  also have "\<dots> \<le> 1 / 2 * (\<bar>x\<bar> / 2 ^ 52)"
    using ub by simp
  also have "\<dots> = \<bar>x\<bar> / 2 ^ 53" by simp
  finally show ?thesis .
qed

lemma fl_ge:
  assumes "0 \<le> c" and "c \<le> x"
  shows "c - c / 9007199254740992 \<le> fl x"
proof -
  have x: "0 \<le> x" using assms by simp
  have "x - x / 2 ^ 53 \<le> fl x"
    using fl_error [of x] x by (simp add: abs_if split: if_splits)
  moreover have "c * (1 - 1 / 2 ^ 53) \<le> x * (1 - 1 / 2 ^ 53)"
    using assms(2) by (intro mult_right_mono) simp_all
  ultimately show ?thesis by (simp add: algebra_simps)
qed

lemma fl_le:
  assumes "0 \<le> x" and "x \<le> c"
  shows "fl x \<le> c + c / 9007199254740992"
proof -
  have "fl x \<le> x + x / 2 ^ 53"
    using fl_error [of x] assms(1) by (simp add: abs_if split: if_splits)
  moreover have "x * (1 + 1 / 2 ^ 53) \<le> c * (1 + 1 / 2 ^ 53)"
    using assms(2) by (intro mult_right_mono) simp_all
  ultimately show ?thesis by (simp add: algebra_simps)
qed

lemma fl_nonneg: "0 \<le> x \<Longrightarrow> 0 \<le> fl x"
  using fl_ge [of 0 x] by simp

subsection \<open>The minute of a clock value\<close>

lemma minute_bounds:
  assumes "0 \<le> x"
  shows "0 \<le> fl (jsMod1 x * 60)"
    and "60 * x - 60 * of_int \<lfloor>x\<rfloor> - 1 / 100 \<le> fl (jsMod1 x * 60)"
    and "fl (jsMod1 x * 60) \<le> 60 * x - 60 * of_int \<lfloor>x\<rfloor> + 1 / 100"
proof -
  define r where "r = x - of_int \<lfloor>x\<rfloor>"
  have r: "0 \<le> r" "r < 1" unfolding r_def by linarith+
  have m: "jsMod1 x * 60 = 60 * r" using assms by (simp add: jsMod1_def r_def)
  have nn: "0 \<le> 60 * r" using r by simp
  have lo: "60 * r - 60 * r / 9007199254740992 \<le> fl (60 * r)"
    using fl_ge [OF nn order_refl] .
  have hi: "fl (60 * r) \<le> 60 * r + 60 * r / 9007199254740992"
    using fl_le [OF nn order_refl] .
  show "0 \<le> fl (jsMod1 x * 60)" unfolding m using fl_nonneg [OF nn] .
  show "60 * x - 60 * of_int \<lfloor>x\<rfloor> - 1 / 100 \<le> fl (jsMod1 x * 60)"
    unfolding m using lo r r_def by linarith
  show "fl (jsMod1 x * 60) \<le> 60 * x - 60 * of_int \<lfloor>x\<rfloor> + 1 / 100"
    unfolding m using hi r r_def by linarith
qed

lemma rounded_minute:
  assumes "0 \<le> x"
  shows "0 \<le> jsRound (fl (jsMod1 x * 60))"
    and "\<bar>of_int (60 * \<lfloor>x\<rfloor> + jsRound (fl (jsMod1 x * 60))) - 60 * x\<bar> \<le> 51 / 100"
proof -
  define v where "v = fl (jsMod1 x * 60)"
  note b = minute_bounds [OF assms, folded v_def]
  have f: "of_int \<lfloor>v + 1 / 2\<rfloor> \<le> v + 1 / 2" "v + 1 / 2 < of_int \<lfloor>v + 1 / 2\<rfloor> + 1"
    by linarith+
  have "0 \<le> \<lfloor>v + 1 / 2\<rfloor>" using b(1) by simp
  then show "0 \<le> jsRound (fl (jsMod1 x * 60))" by (simp add: jsRound_def v_def)
  have e: "(of_int (60 * \<lfloor>x\<rfloor> + \<lfloor>v + 1 / 2\<rfloor>) :: rat) = 60 * of_int \<lfloor>x\<rfloor> + of_int \<lfloor>v + 1 / 2\<rfloor>"
    by simp
  have "\<bar>of_int (60 * \<lfloor>x\<rfloor> + \<lfloor>v + 1 / 2\<rfloor>) - 60 * x\<bar> \<le> 51 / 100"
    unfolding e abs_le_iff using b f by (intro conjI; linarith)
  then show "\<bar>of_int (60 * \<lfloor>x\<rfloor> + jsRound (fl (jsMod1 x * 60))) - 60 * x\<bar> \<le> 51 / 100"
    by (simp add: jsRound_def v_def)
qed

lemma truncated_minute:
  assumes "0 \<le> x"
  shows "0 \<le> jsTrunc (fl (jsMod1 x * 60))"
    and "60 * x - 101 / 100 \<le> of_int (60 * \<lfloor>x\<rfloor> + jsTrunc (fl (jsMod1 x * 60)))"
    and "of_int (60 * \<lfloor>x\<rfloor> + jsTrunc (fl (jsMod1 x * 60))) \<le> 60 * x + 1 / 100"
proof -
  define v where "v = fl (jsMod1 x * 60)"
  note b = minute_bounds [OF assms, folded v_def]
  have f: "of_int \<lfloor>v\<rfloor> \<le> v" "v < of_int \<lfloor>v\<rfloor> + 1" by linarith+
  have t: "jsTrunc (fl (jsMod1 x * 60)) = \<lfloor>v\<rfloor>" using b(1) by (simp add: jsTrunc_def v_def)
  have e: "(of_int (60 * \<lfloor>x\<rfloor> + \<lfloor>v\<rfloor>) :: rat) = 60 * of_int \<lfloor>x\<rfloor> + of_int \<lfloor>v\<rfloor>"
    by simp
  show "0 \<le> jsTrunc (fl (jsMod1 x * 60))" using b(1) by (simp add: t)
  show "60 * x - 101 / 100 \<le> of_int (60 * \<lfloor>x\<rfloor> + jsTrunc (fl (jsMod1 x * 60)))"
    unfolding t e using b f by linarith
  show "of_int (60 * \<lfloor>x\<rfloor> + jsTrunc (fl (jsMod1 x * 60))) \<le> 60 * x + 1 / 100"
    unfolding t e using b f by linarith
qed

lemma clock_step:
  assumes c: "0 \<le> c"
    and k: "of_int k \<le> 60 * c + 51 / 100" "60 * c - 101 / 100 \<le> of_int k"
    and lim: "k \<le> 143947404000"
    and s: "1 / 31 \<le> s"
    and k': "60 * fl (c + s) - 101 / 100 \<le> of_int k'"
  shows "k < k'"
proof -
  have "(of_int k :: rat) \<le> of_int 143947404000" using lim by (simp only: of_int_le_iff)
  then have "(of_int k :: rat) \<le> 143947404000" by simp
  then have cb: "c \<le> 2400000000" using k(2) by linarith
  have lo: "0 \<le> c + 1 / 31" "c + 1 / 31 \<le> c + s" using c s by simp_all
  have "c + 1 / 31 - (c + 1 / 31) / 9007199254740992 \<le> fl (c + s)"
    using fl_ge [OF lo] .
  moreover have "(c + 1 / 31) / 9007199254740992 \<le> 2400000001 / 9007199254740992"
    using cb by (intro divide_right_mono) simp_all
  ultimately have "c + 1 / 31 - 1 / 1000000 \<le> fl (c + s)" by linarith
  then have "(of_int k :: rat) < of_int k'" using k(1) k' by linarith
  then show ?thesis by (simp only: of_int_less_iff)
qed

lemma travel_minutes:
  assumes "0 < d" and "0 < t"
  shows "1 / 31 \<le> fl (fl (of_int d / 60) + fl (of_int t / 60))"
proof -
  have d: "(1::rat) / 60 \<le> of_int d / 60" and t: "(1::rat) / 60 \<le> of_int t / 60"
    using assms by simp_all
  have a: "1 / 60 - 1 / 60 / 9007199254740992 \<le> fl (of_int d / 60)"
    using fl_ge [OF _ d] by simp
  have b: "1 / 60 - 1 / 60 / 9007199254740992 \<le> fl (of_int t / 60)"
    using fl_ge [OF _ t] by simp
  have ab: "(299::rat) / 9000 \<le> fl (of_int d / 60) + fl (of_int t / 60)" using a b by linarith
  have "299 / 9000 - 299 / 9000 / 9007199254740992 \<le> fl (fl (of_int d / 60) + fl (of_int t / 60))"
    using fl_ge [OF _ ab] by simp
  then show ?thesis by linarith
qed

subsection \<open>Printing and reading a time\<close>

lemma less_10_cases:
  "d < (10::nat) \<Longrightarrow> d = 0 \<or> d = 1 \<or> d = 2 \<or> d = 3 \<or> d = 4 \<or> d = 5 \<or> d = 6 \<or> d = 7 \<or> d = 8 \<or> d = 9"
  by arith

lemma digitChar_in: "d < 10 \<Longrightarrow> digitChar d \<in> set digits"
  by (drule less_10_cases) (auto simp: digitChar_def digits_def)

lemma digitVal_digitChar: "d < 10 \<Longrightarrow> digitVal 10 (digitChar d) = Some d"
  by (drule less_10_cases) (auto simp: digitVal_def hexVal_def digitChar_def digits_def)

lemma showNat_digits: "set (showNat n) \<subseteq> set digits"
proof (induction n rule: showNat.induct)
  case (1 n)
  show ?case
  proof (cases "n < 10")
    case True
    then show ?thesis by (subst showNat.simps) (simp add: digitChar_in)
  next
    case False
    have "n mod 10 < 10" by simp
    with False 1 show ?thesis
      by (subst showNat.simps) (simp add: digitChar_in)
  qed
qed

lemma showNat_nonempty: "showNat n \<noteq> []"
  by (subst showNat.simps) simp

lemma readDigits_append:
  assumes "\<forall>c \<in> set xs. digitVal radix c \<noteq> None"
  shows "readDigits radix acc (xs @ ys) = readDigits radix (readDigits radix acc xs) ys"
  using assms
  by (induction xs arbitrary: acc) (auto split: option.splits)

lemma digits_digitVal: "c \<in> set digits \<Longrightarrow> digitVal 10 c \<noteq> None"
  by (auto simp: digits_def digitVal_def hexVal_def)

lemma readDigits_showNat: "readDigits 10 None (showNat n) = Some n"
proof (induction n rule: showNat.induct)
  case (1 n)
  show ?case
  proof (cases "n < 10")
    case True
    then show ?thesis
      by (subst showNat.simps) (simp add: digitVal_digitChar)
  next
    case False
    have d: "\<forall>c \<in> set (showNat (n div 10)). digitVal 10 c \<noteq> None"
      using showNat_digits [of "n div 10"] digits_digitVal by blast
    have m: "n mod 10 < 10" by simp
    have "readDigits 10 None (showNat n)
            = readDigits 10 (readDigits 10 None (showNat (n div 10))) [digitChar (n mod 10)]"
      using False by (subst showNat.simps) (simp add: readDigits_append [OF d])
    also have "\<dots> = Some (n div 10 * 10 + n mod 10)"
      using False 1 by (simp add: digitVal_digitChar [OF m])
    finally show ?thesis by simp
  qed
qed

lemma digitVal_zero: "digitVal 10 CHR ''0'' = Some 0"
  by (simp add: digitVal_def hexVal_def)

lemma readDigits_zero_digit:
  "d < 10 \<Longrightarrow> readDigits 10 None (CHR ''0'' # [digitChar d]) = Some d"
  by (simp add: digitVal_digitChar digitVal_zero)

lemma showNat_small: "n < 10 \<Longrightarrow> showNat n = [digitChar n]"
  by (subst showNat.simps) simp

lemma showNat_long: "\<not> n < 10 \<Longrightarrow> 2 \<le> length (showNat n)"
  using showNat_nonempty [of "n div 10"]
  by (subst showNat.simps) (cases "showNat (n div 10)"; simp)

lemma readDigits_padded: "readDigits 10 None (padStart2 (showNat n)) = Some n"
proof (cases "n < 10")
  case True
  then show ?thesis
    by (simp add: padStart2_def showNat_small digitVal_zero digitVal_digitChar)
next
  case False
  then show ?thesis
    using showNat_long [OF False] by (simp add: padStart2_def readDigits_showNat)
qed

lemma padded_digits: "set (padStart2 (showNat n)) \<subseteq> set digits"
  using showNat_digits [of n] by (auto simp: padStart2_def digits_def)

lemma padded_nonempty: "padStart2 (showNat n) \<noteq> []"
  using showNat_nonempty [of n] by (simp add: padStart2_def)

lemma parseInt_digits:
  assumes "s \<noteq> []" and "set s \<subseteq> set digits"
  shows "parseInt s = map_option int (readDigits 10 None s)"
proof -
  obtain c t where s: "s = c # t" using assms(1) by (cases s) auto
  have c: "c \<in> set digits" using assms(2) s by simp
  then have nw: "c \<notin> set whiteSpace" "c \<noteq> CHR ''-''" "c \<noteq> CHR ''+''"
    by (auto simp: digits_def whiteSpace_def)
  have nx: "\<not> startsWith s ''0x''" "\<not> startsWith s ''0X''"
  proof -
    show "\<not> startsWith s ''0x''"
      using assms(2) s by (cases t) (auto simp: digits_def)
    show "\<not> startsWith s ''0X''"
      using assms(2) s by (cases t) (auto simp: digits_def)
  qed
  have u: "parseUnsigned s = readDigits 10 None s"
    using nx by (simp add: parseUnsigned_def)
  have "parseInt s = map_option int (parseUnsigned s)"
    using nw by (simp add: parseInt_def s)
  with u show ?thesis by simp
qed

lemma parseInt_padded: "parseInt (padStart2 (showNat n)) = Some (int n)"
  by (simp add: parseInt_digits [OF padded_nonempty padded_digits] readDigits_padded)

lemma splitOn_nosep: "c \<notin> set s \<Longrightarrow> splitOn c s = [s]"
  by (induction s) auto

lemma splitOn_sep: "c \<notin> set a \<Longrightarrow> splitOn c (a @ c # b) = a # splitOn c b"
  by (induction a) (auto split: list.splits)

lemma colon_not_digit: "CHR '':'' \<notin> set digits"
  by (simp add: digits_def)

lemma timeParts_formatted:
  "timeParts (padStart2 (showNat a) @ CHR '':'' # padStart2 (showNat b)) = (Some (int a), Some (int b))"
proof -
  have na: "CHR '':'' \<notin> set (padStart2 (showNat a))" "CHR '':'' \<notin> set (padStart2 (showNat b))"
    using padded_digits colon_not_digit by blast+
  have "splitOn CHR '':'' (padStart2 (showNat a) @ CHR '':'' # padStart2 (showNat b))
          = [padStart2 (showNat a), padStart2 (showNat b)]"
    using na by (simp add: splitOn_sep splitOn_nosep)
  then show ?thesis
    by (simp add: timeParts_def parseIntArg_def parseInt_padded)
qed


lemma timeClip_Some: "timeClip k = Some t \<Longrightarrow> t = k \<and> k \<le> 143947404000"
  by (auto simp: timeClip_def split: if_splits)

lemma dateAt_formatTime:
  assumes "0 \<le> x"
  shows "dateAt (formatTime (Some x)) = timeClip (60 * \<lfloor>x\<rfloor> + jsRound (fl (jsMod1 x * 60)))"
proof -
  let ?m = "jsRound (fl (jsMod1 x * 60))"
  have h: "0 \<le> \<lfloor>x\<rfloor>" using assms by simp
  have mi: "0 \<le> ?m" using rounded_minute(1) [OF assms] .
  have sh: "showInt \<lfloor>x\<rfloor> = showNat (nat \<lfloor>x\<rfloor>)"
    using h by (simp add: showInt_def)
  have "\<not> ?m < 0" using mi by linarith
  then have sm: "showInt ?m = showNat (nat ?m)"
    by (simp only: showInt_def if_False)
  have "formatTime (Some x)
          = padStart2 (showNat (nat \<lfloor>x\<rfloor>)) @ CHR '':'' # padStart2 (showNat (nat ?m))"
    by (simp add: formatTime_def sh sm)
  then show ?thesis
    using h mi by (simp add: dateAt_def timeParts_formatted setHours_def)
qed

lemma first_clock:
  assumes h: "0 \<le> h" and m: "0 \<le> m" and lim: "60 * h + m \<le> 143947404000"
  shows "0 \<le> fl (of_int h + fl (of_int m / 60))"
    and "\<bar>of_int (60 * h + m) - 60 * fl (of_int h + fl (of_int m / 60))\<bar> \<le> 51 / 100"
proof -
  define y :: rat where "y = of_int m / 60"
  define z where "z = of_int h + fl y"
  have hb: "(of_int h :: rat) \<le> 2400000000" and mb: "(of_int m :: rat) \<le> 144000000000"
  proof -
    have "h \<le> 2400000000" "m \<le> 144000000000" using h m lim by linarith+
    then have "(of_int h :: rat) \<le> of_int 2400000000" "(of_int m :: rat) \<le> of_int 144000000000"
      by (simp_all only: of_int_le_iff)
    then show "(of_int h :: rat) \<le> 2400000000" "(of_int m :: rat) \<le> 144000000000" by simp_all
  qed
  have hn: "(0::rat) \<le> of_int h" and mn: "(0::rat) \<le> of_int m" using h m by simp_all
  have y: "0 \<le> y" "y \<le> 2400000000" using mn mb by (simp_all add: y_def)
  have fy: "y - y / 9007199254740992 \<le> fl y" "fl y \<le> y + y / 9007199254740992"
    using fl_ge [OF y(1) order_refl] fl_le [OF y(1) order_refl] by simp_all
  have fy0: "0 \<le> fl y" using fl_nonneg [OF y(1)] .
  have z: "0 \<le> z" using hn fy0 by (simp add: z_def)
  have fz: "z - z / 9007199254740992 \<le> fl z" "fl z \<le> z + z / 9007199254740992"
    using fl_ge [OF z order_refl] fl_le [OF z order_refl] by simp_all
  have zb: "z \<le> 4800000001" using hb fy(2) y unfolding z_def by linarith
  show "0 \<le> fl (of_int h + fl (of_int m / 60))"
    using fl_nonneg [OF z] by (simp add: z_def y_def)
  have e: "(of_int (60 * h + m) :: rat) = 60 * of_int h + 60 * y"
    by (simp add: y_def)
  have "\<bar>of_int (60 * h + m) - 60 * fl z\<bar> \<le> 51 / 100"
    unfolding e abs_le_iff using fy fz zb z y hn z_def by (intro conjI; linarith)
  then show "\<bar>of_int (60 * h + m) - 60 * fl (of_int h + fl (of_int m / 60))\<bar> \<le> 51 / 100"
    by (simp add: z_def y_def)
qed

subsection \<open>The clock of the scheduler\<close>

lemma travelAfter_pos: "0 < travelAfter tr a nx"
  by (auto simp: travelAfter_def Let_def split: option.splits)

lemma visitDirect_clock:
  assumes v: "visitDirect cat tr ct i s nx = Some (p, ct')"
  shows "\<exists>a. a \<in> set cat
          \<and> startMinutes p = dateAt (if i = 0 then firstStartText s else formatTime ct)
          \<and> ct' = (case nx of
                     None \<Rightarrow> (if i = 0 then hoursOf (firstStartText s) else ct)
                   | Some n \<Rightarrow>
                       map_option
                         (\<lambda>c. fl (c + fl (fl (of_int (orDefault (duration s)
                                                      (orZero (estimatedVisitTime a) 120)) / 60)
                                        + fl (of_int (travelAfter tr a
                                                       (findAttraction cat (attractionId n))) / 60))))
                         (if i = 0 then hoursOf (firstStartText s) else ct))"
proof -
  let ?ao = "case findAttraction cat (attractionId s) of
               Some a \<Rightarrow> Some a
             | None \<Rightarrow> (case cat of [] \<Rightarrow> None | a # _ \<Rightarrow> Some a)"
  from v obtain a where ao: "?ao = Some a"
    by (cases ?ao) (simp_all add: visitDirect_def)
  have a_in: "a \<in> set cat"
    using ao find_in_set
    by (fastforce simp: findAttraction_def split: option.splits list.splits)
  from v ao have p: "startMinutes p = dateAt (if i = 0 then firstStartText s else formatTime ct)"
    by (auto simp: visitDirect_def Let_def startMinutes_def)
  from v ao have c: "ct' = (case nx of
       None \<Rightarrow> (if i = 0 then hoursOf (firstStartText s) else ct)
     | Some n \<Rightarrow> map_option
         (\<lambda>c. fl (c + fl (fl (of_int (orDefault (duration s) (orZero (estimatedVisitTime a) 120)) / 60)
                        + fl (of_int (travelAfter tr a (findAttraction cat (attractionId n))) / 60))))
         (if i = 0 then hoursOf (firstStartText s) else ct))"
    by (auto simp: visitDirect_def Let_def cong: option.case_cong)
  from a_in p c show ?thesis by blast
qed

lemma mapDirect_starts:
  assumes "mapDirect cat tr ct i ss = Some ps"
    and "(if i = 0 then hoursOf (firstStartText (hd ss)) else ct) = Some c"
    and "0 \<le> c"
    and "dateAt (if i = 0 then firstStartText (hd ss) else formatTime ct) = timeClip k"
    and "\<bar>of_int k - 60 * c\<bar> \<le> 51 / 100"
    and "noNegativeVisitTime cat"
    and "list_all (\<lambda>s. case duration s of None \<Rightarrow> True | Some d \<Rightarrow> 0 \<le> d) ss"
    and "allValid (map startMinutes ps)"
  shows "\<exists>ts. map startMinutes ps = map Some ts \<and> sorted_wrt (<) ts
              \<and> (\<forall>t \<in> set ts. 60 * c - 101 / 100 \<le> of_int t)"
  using assms
proof (induction ss arbitrary: ct i ps c k)
  case Nil
  then show ?case by simp
next
  case (Cons s rest)
  let ?nx = "case rest of [] \<Rightarrow> None | nx # _ \<Rightarrow> Some nx"
  let ?cur = "if i = 0 then hoursOf (firstStartText s) else ct"
  from Cons.prems(1) obtain p ct' ps' where
    v: "visitDirect cat tr ct i s ?nx = Some (p, ct')"
    and mr: "mapDirect cat tr ct' (Suc i) rest = Some ps'" and ps: "ps = p # ps'"
    by (auto split: option.splits prod.splits)
  from visitDirect_clock [OF v] obtain a where a: "a \<in> set cat"
    and sp: "startMinutes p = dateAt (if i = 0 then firstStartText s else formatTime ct)"
    and c': "ct' = (case ?nx of
       None \<Rightarrow> ?cur
     | Some n \<Rightarrow> map_option
         (\<lambda>c. fl (c + fl (fl (of_int (orDefault (duration s) (orZero (estimatedVisitTime a) 120)) / 60)
                        + fl (of_int (travelAfter tr a (findAttraction cat (attractionId n))) / 60))))
         ?cur)"
    by blast
  have cur: "?cur = Some c" using Cons.prems(2) by (cases "i = 0") simp_all
  have st: "startMinutes p = timeClip k" using sp Cons.prems(4) by (cases "i = 0") simp_all
  have valid: "startMinutes p \<noteq> None" and valid': "allValid (map startMinutes ps')"
    using Cons.prems(8) ps by (simp_all add: allValid_def)
  from valid st obtain t where t: "timeClip k = Some t" by (cases "timeClip k") auto
  from timeClip_Some [OF t] have tk: "t = k" and lim: "k \<le> 143947404000" by simp_all
  have spk: "startMinutes p = Some k" using st t tk by simp
  have kb: "of_int k \<le> 60 * c + 51 / 100" "60 * c - 101 / 100 \<le> of_int k"
    using Cons.prems(5) unfolding abs_le_iff by linarith+
  show ?case
  proof (cases rest)
    case Nil
    with mr ps spk kb show ?thesis
      by (intro exI [of _ "[k]"]) simp
  next
    case (Cons n rest')
    let ?dur = "orDefault (duration s) (orZero (estimatedVisitTime a) 120)"
    let ?w = "travelAfter tr a (findAttraction cat (attractionId n))"
    let ?s = "fl (fl (of_int ?dur / 60) + fl (of_int ?w / 60))"
    have dur: "0 < ?dur"
      using Cons.prems(7) a Cons.prems(6)
      by (auto simp: orDefault_def orZero_def noNegativeVisitTime_def list_all_iff
               split: option.splits)
    have s31: "1 / 31 \<le> ?s" using travel_minutes [OF dur travelAfter_pos] .
    define c1 where "c1 = fl (c + ?s)"
    have ct': "ct' = Some c1" using c' cur Cons by (simp add: c1_def)
    have c1: "0 \<le> c1" unfolding c1_def using Cons.prems(3) s31 by (intro fl_nonneg) linarith
    define k1 where "k1 = 60 * \<lfloor>c1\<rfloor> + jsRound (fl (jsMod1 c1 * 60))"
    have d1: "dateAt (if Suc i = 0 then firstStartText (hd rest) else formatTime ct') = timeClip k1"
      using dateAt_formatTime [OF c1] by (simp add: ct' k1_def)
    have b1: "\<bar>of_int k1 - 60 * c1\<bar> \<le> 51 / 100"
      unfolding k1_def using rounded_minute(2) [OF c1] .
    have cur1: "(if Suc i = 0 then hoursOf (firstStartText (hd rest)) else ct') = Some c1"
      using ct' by simp
    have dr: "list_all (\<lambda>s. case duration s of None \<Rightarrow> True | Some d \<Rightarrow> 0 \<le> d) rest"
      using Cons.prems(7) by simp
    from Cons.IH [OF mr cur1 c1 d1 b1 Cons.prems(6) dr valid']
    obtain ts where ts: "map startMinutes ps' = map Some ts" "sorted_wrt (<) ts"
      "\<forall>t \<in> set ts. 60 * c1 - 101 / 100 \<le> of_int t"
      by blast
    have lt: "\<forall>t \<in> set ts. k < t"
    proof
      fix t assume "t \<in> set ts"
      with ts(3) have "60 * fl (c + ?s) - 101 / 100 \<le> of_int t" by (simp add: c1_def)
      from clock_step [OF Cons.prems(3) kb lim s31 this] show "k < t" .
    qed
    have "map startMinutes ps = map Some (k # ts)"
      using ps spk ts(1) by simp
    moreover have "sorted_wrt (<) (k # ts)" using ts(2) lt by simp
    moreover have "\<forall>t \<in> set (k # ts). 60 * c - 101 / 100 \<le> of_int t"
    proof
      fix t assume "t \<in> set (k # ts)"
      then consider "t = k" | "t \<in> set ts" by auto
      then show "60 * c - 101 / 100 \<le> of_int t"
      proof cases
        case 1
        then show ?thesis using kb(2) by simp
      next
        case 2
        with lt have "k < t" by simp
        then have "k \<le> t" by simp
        then have "(of_int k :: rat) \<le> of_int t" by (simp only: of_int_le_iff)
        then show ?thesis using kb(2) by linarith
      qed
    qed
    ultimately show ?thesis by blast
  qed
qed

lemma increasing_Some: "sorted_wrt (<) ts \<Longrightarrow> increasing (map Some ts)"
proof (induction ts rule: induct_list012)
  case 1
  then show ?case by simp
next
  case (2 x)
  then show ?case by simp
next
  case (3 x y zs)
  then show ?case by simp
qed

lemma processDirect_increasing:
  assumes r: "processDirectTripPlan plan cat tr = Some r"
    and f: "firstStartWellFormed plan" and d: "noNegativeDuration plan"
    and c: "noNegativeVisitTime cat"
    and va: "allValid (map startMinutes (attractions r))"
  shows "increasing (map startMinutes (attractions r))"
proof (cases "selectedAttractions plan")
  case Nil
  with r show ?thesis
    by (auto simp: processDirectTripPlan_def split: option.splits)
next
  case (Cons s rest)
  from r have m: "mapDirect cat tr (Some 9) 0 (selectedAttractions plan) = Some (attractions r)"
    by (auto simp: processDirectTripPlan_def split: option.splits)
  from f Cons obtain h mi where tp: "timeParts (firstStartText s) = (Some h, Some mi)"
    and nn: "0 \<le> h" "0 \<le> mi"
    by (auto simp: firstStartWellFormed_def split: option.splits prod.splits)
  define c0 where "c0 = fl (of_int h + fl (of_int mi / 60))"
  have st: "dateAt (firstStartText s) = timeClip (60 * h + mi)"
    using tp by (simp add: dateAt_def setHours_def)
  have "\<exists>p ct' ps'. visitDirect cat tr (Some 9) 0 s (case rest of [] \<Rightarrow> None | nx # _ \<Rightarrow> Some nx)
                        = Some (p, ct') \<and> p # ps' = attractions r"
    using m Cons by (auto split: option.splits prod.splits)
  then obtain p ct' ps' where
    v: "visitDirect cat tr (Some 9) 0 s (case rest of [] \<Rightarrow> None | nx # _ \<Rightarrow> Some nx) = Some (p, ct')"
    and ps: "attractions r = p # ps'"
    by metis
  have "startMinutes p = dateAt (firstStartText s)"
    using visitDirect_clock [OF v] by auto
  with va ps st obtain t where "timeClip (60 * h + mi) = Some t"
    by (cases "timeClip (60 * h + mi)") (auto simp: allValid_def)
  from timeClip_Some [OF this] have lim: "60 * h + mi \<le> 143947404000" by simp
  note fc = first_clock [OF nn lim, folded c0_def]
  have 1: "(if (0::nat) = 0 then hoursOf (firstStartText (hd (selectedAttractions plan))) else Some 9)
             = Some c0"
    using Cons tp by (simp add: hoursOf_def c0_def)
  have 2: "dateAt (if (0::nat) = 0 then firstStartText (hd (selectedAttractions plan))
                   else formatTime (Some 9)) = timeClip (60 * h + mi)"
    using Cons st by simp
  from mapDirect_starts [OF m 1 fc(1) 2 fc(2) c d [unfolded noNegativeDuration_def] va]
  obtain ts where "map startMinutes (attractions r) = map Some ts" "sorted_wrt (<) ts"
    by blast
  then show ?thesis by (simp add: increasing_Some)
qed

subsection \<open>Ordinals\<close>

lemma upt_shift: "map int [Suc i..<Suc i + Suc n] = (int i + 1) # map int [Suc (Suc i)..<Suc (Suc i) + n]"
  by (simp add: upt_conv_Cons)

lemma mapFallback_ordinals:
  "map recPriority (mapFallback rtd t i xs) = map int [Suc i..<Suc i + length xs]
   \<and> map priority (mapFallback rtd t i xs) = map int [Suc i..<Suc i + length xs]
   \<and> map recVisitOrder (mapFallback rtd t i xs) = map int [Suc i..<Suc i + length xs]"
proof (induction xs arbitrary: t i)
  case Nil
  then show ?case by simp
next
  case (Cons a xs)
  show ?case
    using Cons.IH [of _ "Suc i"] by (simp add: Let_def upt_conv_Cons del: upt_Suc)
qed

lemma visitDirect_recPriority:
  "visitDirect cat tr ct i s nx = Some (p, ct') \<Longrightarrow> recPriority p = int i + 1"
  by (auto simp: visitDirect_def Let_def split: option.splits list.splits)

lemma mapDirect_ordinals:
  "mapDirect cat tr ct i ss = Some ps \<Longrightarrow> map recPriority ps = map int [Suc i..<Suc i + length ps]"
proof (induction ss arbitrary: ct i ps)
  case Nil
  then show ?case by simp
next
  case (Cons s ss)
  from Cons.prems obtain p ct' ps' where
    v: "visitDirect cat tr ct i s (case ss of [] \<Rightarrow> None | nx # _ \<Rightarrow> Some nx) = Some (p, ct')"
    and m: "mapDirect cat tr ct' (Suc i) ss = Some ps'" and ps: "ps = p # ps'"
    by (auto split: option.splits prod.splits)
  show ?case
    using visitDirect_recPriority [OF v] Cons.IH [OF m] ps
    by (simp add: upt_conv_Cons del: upt_Suc)
qed

lemma enumerate_ordinals:
  "map recPriority (map plannedOfExtracted (enumerate n items)) = map int [Suc n..<Suc n + length items]"
proof (induction items arbitrary: n)
  case Nil
  then show ?case by simp
next
  case (Cons x items)
  show ?case
    using Cons.IH [of "Suc n"] by (simp add: plannedOfExtracted_def upt_conv_Cons del: upt_Suc)
qed

lemma fallback_ordinals:
  "map recPriority (attractions (getDirectFallbackTripPlan t cat rtd))
     = ordinals (length (attractions (getDirectFallbackTripPlan t cat rtd)))"
  using mapFallback_ordinals [of rtd 9 0 "selectFallback t cat rtd"]
  by (simp add: ordinals_def getDirectFallbackTripPlan_def Let_def del: upt_Suc)
     (simp add: attraction_mapFallback [THEN arg_cong, of length, simplified])


lemma length_mapFallback: "length (mapFallback rtd t i xs) = length xs"
  using attraction_mapFallback [of rtd t i xs, THEN arg_cong, of length] by simp

lemma fallback_priority:
  "map priority (attractions (getDirectFallbackTripPlan t cat rtd))
     = ordinals (length (attractions (getDirectFallbackTripPlan t cat rtd)))
   \<and> map recVisitOrder (attractions (getDirectFallbackTripPlan t cat rtd))
     = ordinals (length (attractions (getDirectFallbackTripPlan t cat rtd)))"
  using mapFallback_ordinals [of rtd 9 0 "selectFallback t cat rtd"]
  by (simp add: ordinals_def getDirectFallbackTripPlan_def Let_def length_mapFallback del: upt_Suc)

lemma processDirect_ordinals:
  "processDirectTripPlan plan cat tr = Some r
     \<Longrightarrow> map recPriority (attractions r) = ordinals (length (attractions r))"
  by (auto simp: processDirectTripPlan_def ordinals_def split: option.splits
           dest!: mapDirect_ordinals simp del: upt_Suc)

lemma extract_shape:
  assumes "extractTripPlanFromText resp cat = Some r"
  shows "\<exists>items. attractions r = map plannedOfExtracted (enumerate 0 items)"
  using assms
  by (auto simp: extractTripPlanFromText_def Let_def split: if_splits)

lemma extract_ordinals:
  assumes "extractTripPlanFromText resp cat = Some r"
  shows "map recPriority (attractions r) = ordinals (length (attractions r))"
proof -
  obtain items where i: "attractions r = map plannedOfExtracted (enumerate 0 items)"
    using extract_shape [OF assms] by blast
  show ?thesis
    unfolding i ordinals_def using enumerate_ordinals [of 0 items] by simp
qed

lemma repairAndSchedule_ordinals:
  "repairAndSchedule e resp cat = Some r
     \<Longrightarrow> map recPriority (attractions r) = ordinals (length (attractions r))"
  unfolding repairAndSchedule_def
  by (auto split: option.splits dest: processDirect_ordinals extract_ordinals)

lemma pipeline_ordinals:
  "map recPriority (attractions (fst (generateDirectTripPlan e svc t cat rtd)))
     = ordinals (length (attractions (fst (generateDirectTripPlan e svc t cat rtd))))"
proof -
  let ?r = "fst (generateDirectTripPlan e svc t cat rtd)"
  have "(\<exists>rtd'. ?r = getDirectFallbackTripPlan t cat rtd')
        \<or> (\<exists>resp. repairAndSchedule e resp cat = Some ?r)"
    by (auto simp: generateDirectTripPlan_def Let_def split: option.splits)
  then show ?thesis
    using fallback_ordinals repairAndSchedule_ordinals by metis
qed



lemma mapDirect_priority:
  "mapDirect cat tr ct i ss = Some ps
     \<Longrightarrow> map priority ps
           = map (\<lambda>(index, selected). orDefault (visitOrder selected) (int index + 1)) (enumerate i ss)
         \<and> map recVisitOrder ps
           = map (\<lambda>(index, selected). orDefault (visitOrder selected) (int index + 1)) (enumerate i ss)"
proof (induction ss arbitrary: ct i ps)
  case Nil
  then show ?case by simp
next
  case (Cons s ss)
  from Cons.prems obtain p ct' ps' where
    v: "visitDirect cat tr ct i s (case ss of [] \<Rightarrow> None | nx # _ \<Rightarrow> Some nx) = Some (p, ct')"
    and m: "mapDirect cat tr ct' (Suc i) ss = Some ps'" and ps: "ps = p # ps'"
    by (auto split: option.splits prod.splits)
  from v have "priority p = orDefault (visitOrder s) (int i + 1)"
    and "recVisitOrder p = orDefault (visitOrder s) (int i + 1)"
    by (auto simp: visitDirect_def Let_def split: option.splits list.splits)
  with Cons.IH [OF m] ps show ?case by simp
qed

lemma processDirect_priority:
  "processDirectTripPlan plan cat tr = Some r
     \<Longrightarrow> map priority (attractions r) = generatorOrdinals plan
         \<and> map recVisitOrder (attractions r) = generatorOrdinals plan"
  by (auto simp: processDirectTripPlan_def generatorOrdinals_def split: option.splits
           dest!: mapDirect_priority)

lemma enumerate_priority:
  "map priority (map plannedOfExtracted (enumerate n items)) = map int [Suc n..<Suc n + length items]
   \<and> map recVisitOrder (map plannedOfExtracted (enumerate n items))
       = map int [Suc n..<Suc n + length items]"
proof (induction items arbitrary: n)
  case Nil
  then show ?case by simp
next
  case (Cons x items)
  show ?case
    using Cons.IH [of "Suc n"] by (simp add: plannedOfExtracted_def upt_conv_Cons del: upt_Suc)
qed

lemma extract_items:
  assumes "extractTripPlanFromText resp cat = Some r"
  shows "attractions r
           = map plannedOfExtracted
               (enumerate 0 (if extractedBlocks resp cat = [] then mentioned resp cat
                             else extractedBlocks resp cat))"
  using assms
  by (auto simp: extractTripPlanFromText_def extractedBlocks_def Let_def split: if_splits)

lemma extract_priority:
  assumes "extractTripPlanFromText resp cat = Some r"
  shows "map priority (attractions r) = ordinals (length (attractions r))
         \<and> map recVisitOrder (attractions r) = ordinals (length (attractions r))"
  unfolding extract_items [OF assms] ordinals_def
  using enumerate_priority [of 0] by simp

lemma extract_quoted_starts:
  assumes "extractTripPlanFromText resp cat = Some r" and "extractedBlocks resp cat \<noteq> []"
  shows "map plannedStartTime (attractions r)
           = map (\<lambda>x. StartStr (exSuggestedTime x)) (extractedBlocks resp cat)"
proof -
  have "map plannedStartTime (map plannedOfExtracted (enumerate n items))
          = map (\<lambda>x. StartStr (exSuggestedTime x)) items" for n items
    by (induction items arbitrary: n) (simp_all add: plannedOfExtracted_def)
  then show ?thesis
    unfolding extract_items [OF assms(1)] using assms(2) by simp
qed

lemma named_hours:
  "dateAt (showNat 9 @ '':00'') = Some 540"
  "dateAt (showNat 11 @ '':00'') = Some 660"
  "dateAt (showNat 13 @ '':00'') = Some 780"
  "dateAt (showNat 15 @ '':00'') = Some 900"
  by code_simp+

lemma short_list:
  assumes "length ys \<le> 4"
  shows "ys = [] \<or> (\<exists>a. ys = [a]) \<or> (\<exists>a b. ys = [a, b]) \<or> (\<exists>a b c. ys = [a, b, c])
         \<or> (\<exists>a b c d. ys = [a, b, c, d])"
  using assms by (auto simp: numeral_eq_Suc le_Suc_eq length_Suc_conv)

lemma mentioned_increasing:
  "increasing (map startMinutes (map plannedOfExtracted (enumerate 0 (mentioned resp cat))))"
proof -
  define ys where "ys = take 4 (filter (\<lambda>a. includesStr (toLowerCase resp) (toLowerCase (name a))) cat)"
  have len: "length ys \<le> 4" by (simp add: ys_def)
  have m: "mentioned resp cat
             = map (\<lambda>(index, a).
                      \<lparr>exAttraction = a,
                       exSuggestedTime = showNat (9 + index * 2) @ '':00'',
                       exDuration = estimatedVisitTime a,
                       exReason = ''Mentioned in AI response''\<rparr>) (enumerate 0 ys)"
    by (simp add: mentioned_def ys_def)
  from short_list [OF len] show ?thesis
    unfolding m
    by (elim disjE exE) (simp_all add: plannedOfExtracted_def startMinutes_def named_hours)
qed

lemma extract_named_increasing:
  assumes "extractTripPlanFromText resp cat = Some r" and "extractedBlocks resp cat = []"
  shows "increasing (map startMinutes (attractions r))"
  unfolding extract_items [OF assms(1)] using assms(2) mentioned_increasing by simp

subsection \<open>The fallback clock\<close>

lemma travelHours_cases:
  "travelHoursAfter rtd a nx = 3 / 2
   \<or> (\<exists>w. 0 < w \<and> travelHoursAfter rtd a nx = fl (of_int w / 60))"
  unfolding travelHoursAfter_def Let_def
  by (auto split: option.splits)

lemma fallback_travel:
  assumes "0 < d"
  shows "1 / 31 \<le> fl (fl (of_int d / 60) + travelHoursAfter rtd a nx)"
proof -
  have dn: "(0::rat) \<le> of_int d / 60" using assms by simp
  have d0: "0 \<le> fl (of_int d / 60)" using fl_nonneg [OF dn] .
  from travelHours_cases [of rtd a nx] show ?thesis
  proof
    assume t: "travelHoursAfter rtd a nx = 3 / 2"
    have lo: "(3::rat) / 2 \<le> fl (of_int d / 60) + 3 / 2" using d0 by simp
    have "3 / 2 - 3 / 2 / 9007199254740992 \<le> fl (fl (of_int d / 60) + 3 / 2)"
      using fl_ge [OF _ lo] by simp
    then show ?thesis unfolding t by linarith
  next
    assume "\<exists>w. 0 < w \<and> travelHoursAfter rtd a nx = fl (of_int w / 60)"
    then obtain w where w: "0 < w" and t: "travelHoursAfter rtd a nx = fl (of_int w / 60)"
      by blast
    show ?thesis unfolding t using travel_minutes [OF assms w] .
  qed
qed

lemma mapFallback_starts:
  assumes "0 \<le> c" and "list_all (\<lambda>a. 0 \<le> estimatedVisitTime a) xs"
    and "allValid (map startMinutes (mapFallback rtd c i xs))"
  shows "\<exists>ts. map startMinutes (mapFallback rtd c i xs) = map Some ts
              \<and> sorted_wrt (<) ts \<and> (\<forall>t \<in> set ts. 60 * c - 101 / 100 \<le> of_int t)"
  using assms
proof (induction xs arbitrary: c i)
  case Nil
  then show ?case by simp
next
  case (Cons a xs)
  let ?v = "orZero (estimatedVisitTime a) 120"
  let ?next = "case xs of [] \<Rightarrow> c
               | nx # _ \<Rightarrow> fl (c + fl (fl (of_int ?v / 60) + travelHoursAfter rtd a nx))"
  define k where "k = 60 * \<lfloor>c\<rfloor> + jsTrunc (fl (jsMod1 c * 60))"
  have step: "map startMinutes (mapFallback rtd c i (a # xs))
                = timeClip k # map startMinutes (mapFallback rtd ?next (Suc i) xs)"
    by (simp add: Let_def startMinutes_def setHours_def k_def)
  have valid: "timeClip k \<noteq> None"
    and valid': "allValid (map startMinutes (mapFallback rtd ?next (Suc i) xs))"
    using Cons.prems(3) unfolding step by (simp_all add: allValid_def)
  from valid obtain t where t: "timeClip k = Some t" by (cases "timeClip k") auto
  from timeClip_Some [OF t] have tk: "timeClip k = Some k" and lim: "k \<le> 143947404000"
    using t by simp_all
  have kb: "of_int k \<le> 60 * c + 51 / 100" "60 * c - 101 / 100 \<le> of_int k"
    using truncated_minute(2,3) [OF Cons.prems(1)] unfolding k_def by linarith+
  have v: "0 < ?v"
    using Cons.prems(2) by (simp add: orZero_def)
  show ?case
  proof (cases xs)
    case Nil
    have "map startMinutes (mapFallback rtd c i (a # xs)) = map Some [k]"
      unfolding step tk by (simp add: Nil)
    then show ?thesis
      using kb(2) by (intro exI [of _ "[k]"]) simp
  next
    case (Cons b ys)
    let ?s = "fl (fl (of_int ?v / 60) + travelHoursAfter rtd a b)"
    have s31: "1 / 31 \<le> ?s" using fallback_travel [OF v] .
    define c1 where "c1 = fl (c + ?s)"
    have nx: "?next = c1" by (simp add: Cons c1_def)
    have c1: "0 \<le> c1" unfolding c1_def using Cons.prems(1) s31 by (intro fl_nonneg) linarith
    from Cons.prems(2) have rest: "list_all (\<lambda>a. 0 \<le> estimatedVisitTime a) xs" by simp
    from Cons.IH [OF c1 rest valid' [unfolded nx]]
    obtain ts where ts: "map startMinutes (mapFallback rtd c1 (Suc i) xs) = map Some ts"
      "sorted_wrt (<) ts" "\<forall>t \<in> set ts. 60 * c1 - 101 / 100 \<le> of_int t"
      by blast
    have lt: "\<forall>t \<in> set ts. k < t"
    proof
      fix t assume "t \<in> set ts"
      with ts(3) have "60 * fl (c + ?s) - 101 / 100 \<le> of_int t" by (simp add: c1_def)
      from clock_step [OF Cons.prems(1) kb lim s31 this] show "k < t" .
    qed
    have "map startMinutes (mapFallback rtd c i (a # xs)) = map Some (k # ts)"
      unfolding step nx tk ts(1) by simp
    moreover have "sorted_wrt (<) (k # ts)" using ts(2) lt by simp
    moreover have "\<forall>t \<in> set (k # ts). 60 * c - 101 / 100 \<le> of_int t"
    proof
      fix t assume "t \<in> set (k # ts)"
      then consider "t = k" | "t \<in> set ts" by auto
      then show "60 * c - 101 / 100 \<le> of_int t"
      proof cases
        case 1
        then show ?thesis using kb(2) by simp
      next
        case 2
        with lt have "k < t" by simp
        then have "k \<le> t" by simp
        then have "(of_int k :: rat) \<le> of_int t" by (simp only: of_int_le_iff)
        then show ?thesis using kb(2) by linarith
      qed
    qed
    ultimately show ?thesis by blast
  qed
qed

lemma fallback_increasing:
  assumes "noNegativeVisitTime cat"
    and "allValid (map startMinutes (attractions (getDirectFallbackTripPlan t cat rtd)))"
  shows "increasing (map startMinutes (attractions (getDirectFallbackTripPlan t cat rtd)))"
proof -
  have "list_all (\<lambda>a. 0 \<le> estimatedVisitTime a) (selectFallback t cat rtd)"
    using assms(1) selectFallback_subset [of t cat rtd]
    by (auto simp: noNegativeVisitTime_def list_all_iff)
  moreover have "allValid (map startMinutes (mapFallback rtd 9 0 (selectFallback t cat rtd)))"
    using assms(2) by (simp add: getDirectFallbackTripPlan_def Let_def)
  ultimately obtain ts where
    "map startMinutes (mapFallback rtd 9 0 (selectFallback t cat rtd)) = map Some ts"
    "sorted_wrt (<) ts"
    using mapFallback_starts [of 9 "selectFallback t cat rtd" rtd 0] by auto
  then show ?thesis
    by (simp add: getDirectFallbackTripPlan_def Let_def increasing_Some)
qed

subsection \<open>Example runs\<close>

lemma lunch_fallback_ordinals:
  "map priority (attractions (getDirectFallbackTripPlan exLunchRequest exCatalog (Some exClear)))
     = [1, 2, 3]
   \<and> map recVisitOrder (attractions (getDirectFallbackTripPlan exLunchRequest exCatalog (Some exClear)))
     = [1, 2, 3]
   \<and> map recPriority (attractions (getDirectFallbackTripPlan exLunchRequest exCatalog (Some exClear)))
     = [1, 2, 3]"
  by code_simp

lemma odd_plan_result:
  "map_option (\<lambda>r. (map priority (attractions r), map plannedStartTime (attractions r),
                     map startMinutes (attractions r)))
     (processDirectTripPlan exPlanOdd exCatalog None)
   = Some ([5, 5], [StartStr ''morning'', StartStr ''NaN:NaN''], [None, None])"
  by code_simp

lemma two_blocks_result:
  "map_option (\<lambda>r. (map priority (attractions r), map startMinutes (attractions r)))
     (extractTripPlanFromText exTwoBlocks exCatalog)
   = Some ([1, 2], [Some 845, Some 540])"
  by code_simp

lemma before_midnight_result:
  "map_option (\<lambda>r. map startMinutes (attractions r))
     (processDirectTripPlan exPlanBeforeMidnight exCatalog exShortHop)
   = Some [Some (- 30), Some (- 88)]"
  by code_simp

lemma minus_minutes_result:
  "map_option (\<lambda>r. map startMinutes (attractions r))
     (processDirectTripPlan exPlanMinusMinutes exCatalog exShortHop)
   = Some [Some (- 30), Some (- 88)]"
  by code_simp

lemma negative_duration_result:
  "map_option (\<lambda>r. map startMinutes (attractions r))
     (processDirectTripPlan exPlanNegativeDuration exCatalog None)
   = Some [Some 540, Some 430]"
  by code_simp

lemma negative_visit_time_result:
  "map_option (\<lambda>r. map startMinutes (attractions r))
     (processDirectTripPlan exPlanNoDuration exNegativeCatalog None)
   = Some [Some 540, Some 430]"
  by code_simp

lemma negative_visit_time_fallback:
  "map startMinutes (attractions (getDirectFallbackTripPlan exPlainRequest exNegativeCatalog None))
   = [Some 540, Some 429, Some 609]"
  by code_simp

lemma long_visit_fallback:
  "map startMinutes (attractions (getDirectFallbackTripPlan exPlainRequest exLongVisitCatalog None))
   = [Some 540, None, None]"
  by code_simp

lemma example_schedule_hypotheses:
  "noNegativeVisitTime exCatalog \<and> firstStartWellFormed exPlanNoTotals
   \<and> noNegativeDuration exPlanNoTotals
   \<and> allValid (map startMinutes
         (attractions (getDirectFallbackTripPlan exLunchRequest exCatalog (Some exClear))))
   \<and> map_option (\<lambda>r. (map startMinutes (attractions r), map priority (attractions r)))
         (processDirectTripPlan exPlanNoTotals exCatalog exTraffic)
       = Some ([Some 540, Some 675], [1, 2])
   \<and> extractedBlocks exTwoBlocks exCatalog \<noteq> []
   \<and> generatorOrdinals exPlanNoTotals = [1, 2]"
  by code_simp

lemma far_start_text: "dateAt ''3000000000:00'' = None"
proof -
  have sp: "splitOn CHR '':'' ''3000000000:00'' = [''3000000000'', ''00'']"
    by code_simp
  have d: "''3000000000'' \<noteq> []" "set ''3000000000'' \<subseteq> set digits"
    by (simp_all add: digits_def)
  have h: "parseInt ''3000000000'' = Some 3000000000"
    by (simp add: parseInt_digits [OF d] digitVal_def hexVal_def)
  have m: "parseInt ''00'' = Some 0"
    by code_simp
  show ?thesis
    by (simp add: dateAt_def timeParts_def sp h m parseIntArg_def setHours_def timeClip_def)
qed

lemma far_start_result:
  "map_option (\<lambda>r. map startMinutes (attractions r))
     (processDirectTripPlan exPlanFar exCatalog None)
   = Some [None]"
  by (simp add: processDirectTripPlan_def exPlanFar_def exItem_def visitDirect_def Let_def
        findAttraction_def exCatalog_def exTemple_def firstStartText_def startMinutes_def
        far_start_text)

text \<open>
  C4, as stated, fails.  The ordinals start at 1, not at 0: for the lunch request on the
  example catalog the fallback assigns 1, 2, 3.  In the scheduler outcome the \<^verbatim>\<open>priority\<close>
  field repeats the generator's \<^verbatim>\<open>visitOrder\<close>, here 5 and 5.  The start times are not
  always increasing, nor always valid dates:
  \<^item> a first start text that is no time makes every start of the scheduler invalid;
  \<^item> the text extraction takes each start from the response, here 14:05 before 09:00;
  \<^item> a first start text with negative hours or negative minutes, followed by a short hop
    of the traffic matrix, puts the second start of the scheduler before the first;
  \<^item> a negative duration of the generator, or a negative visit time of the catalog, does
    the same in the scheduler, and a negative visit time does it in the fallback;
  \<^item> a first start of 3,000,000,000 hours, or a visit of \<open>10 ^ 13\<close> minutes in the fallback,
    leaves the range of \<^verbatim>\<open>Date\<close>, and the start is an invalid date.
\<close>

theorem ordinals_start_at_one_counterexample:
  "map priority (attractions (getDirectFallbackTripPlan exLunchRequest exCatalog (Some exClear)))
     = [1, 2, 3]
   \<and> map recVisitOrder (attractions (getDirectFallbackTripPlan exLunchRequest exCatalog (Some exClear)))
     = [1, 2, 3]
   \<and> map recPriority (attractions (getDirectFallbackTripPlan exLunchRequest exCatalog (Some exClear)))
     = [1, 2, 3]
   \<and> map_option (\<lambda>r. (map priority (attractions r), map plannedStartTime (attractions r),
                          map startMinutes (attractions r)))
         (processDirectTripPlan exPlanOdd exCatalog None)
       = Some ([5, 5], [StartStr ''morning'', StartStr ''NaN:NaN''], [None, None])
   \<and> map_option (\<lambda>r. (map priority (attractions r), map startMinutes (attractions r)))
         (extractTripPlanFromText exTwoBlocks exCatalog)
       = Some ([1, 2], [Some 845, Some 540])
   \<and> map_option (\<lambda>r. map startMinutes (attractions r))
         (processDirectTripPlan exPlanBeforeMidnight exCatalog exShortHop)
       = Some [Some (- 30), Some (- 88)]
   \<and> map_option (\<lambda>r. map startMinutes (attractions r))
         (processDirectTripPlan exPlanMinusMinutes exCatalog exShortHop)
       = Some [Some (- 30), Some (- 88)]
   \<and> map_option (\<lambda>r. map startMinutes (attractions r))
         (processDirectTripPlan exPlanNegativeDuration exCatalog None)
       = Some [Some 540, Some 430]
   \<and> map_option (\<lambda>r. map startMinutes (attractions r))
         (processDirectTripPlan exPlanNoDuration exNegativeCatalog None)
       = Some [Some 540, Some 430]
   \<and> map startMinutes (attractions (getDirectFallbackTripPlan exPlainRequest exNegativeCatalog None))
       = [Some 540, Some 429, Some 609]
   \<and> map_option (\<lambda>r. map startMinutes (attractions r))
         (processDirectTripPlan exPlanFar exCatalog None)
       = Some [None]
   \<and> map startMinutes (attractions (getDirectFallbackTripPlan exPlainRequest exLongVisitCatalog None))
       = [Some 540, None, None]"
  by (intro conjI lunch_fallback_ordinals [THEN conjunct1]
        lunch_fallback_ordinals [THEN conjunct2, THEN conjunct1]
        lunch_fallback_ordinals [THEN conjunct2, THEN conjunct2]
        odd_plan_result two_blocks_result before_midnight_result minus_minutes_result
        negative_duration_result negative_visit_time_result negative_visit_time_fallback
        far_start_result long_visit_fallback)


text \<open>
  C4, amended.  In every plan that \<open>generateDirectTripPlan\<close> returns, the positional ordinal
  of the visits (\<^verbatim>\<open>aiRecommendation.priority\<close>) runs 1, 2, ..., n.  The \<^verbatim>\<open>priority\<close> and
  \<^verbatim>\<open>visitOrder\<close> fields are the same ordinals in the fallback plan and in the plan of the
  text extraction; in the plan scheduled by \<open>processDirectTripPlan\<close> they are the
  generator's \<^verbatim>\<open>visitOrder\<close> where it is present and not zero, and the position counted
  from 1 otherwise.

  The start times of the fallback plan are strictly increasing when no visit time of the
  catalog is negative and every start is a valid date.  Those of a plan scheduled by
  \<open>processDirectTripPlan\<close> are strictly increasing when, in addition, no duration of the
  generator is negative and the start text of the first item reads as hours and minutes,
  neither negative.  In the plan of the text extraction each start is the time quoted in
  the visit's block of the response (09:00 when the block quotes none), in the order of
  the blocks; when no block is found and the visits come from the names mentioned in the
  response, the starts are 9:00, 11:00, 13:00 and 15:00, which is increasing.
\<close>

theorem itinerary_ordinals_and_start_times:
  "map recPriority (attractions (fst (generateDirectTripPlan e svc userText availableAttractions rtd)))
     = ordinals (length (attractions (fst (generateDirectTripPlan e svc userText availableAttractions rtd))))
   \<and> map priority (attractions (getDirectFallbackTripPlan userText availableAttractions rtd))
     = ordinals (length (attractions (getDirectFallbackTripPlan userText availableAttractions rtd)))
   \<and> map recVisitOrder (attractions (getDirectFallbackTripPlan userText availableAttractions rtd))
     = ordinals (length (attractions (getDirectFallbackTripPlan userText availableAttractions rtd)))
   \<and> (noNegativeVisitTime availableAttractions
        \<and> allValid (map startMinutes
              (attractions (getDirectFallbackTripPlan userText availableAttractions rtd)))
        \<longrightarrow> increasing (map startMinutes
              (attractions (getDirectFallbackTripPlan userText availableAttractions rtd))))
   \<and> (case processDirectTripPlan plan availableAttractions trafficData of
         None \<Rightarrow> True
       | Some r \<Rightarrow>
           map priority (attractions r) = generatorOrdinals plan
           \<and> map recVisitOrder (attractions r) = generatorOrdinals plan
           \<and> (noNegativeVisitTime availableAttractions \<and> noNegativeDuration plan
                \<and> firstStartWellFormed plan \<and> allValid (map startMinutes (attractions r))
              \<longrightarrow> increasing (map startMinutes (attractions r))))
   \<and> (case extractTripPlanFromText aiResponse availableAttractions of
         None \<Rightarrow> True
       | Some r \<Rightarrow>
           map priority (attractions r) = ordinals (length (attractions r))
           \<and> map recVisitOrder (attractions r) = ordinals (length (attractions r))
           \<and> (if extractedBlocks aiResponse availableAttractions = []
               then increasing (map startMinutes (attractions r))
               else map plannedStartTime (attractions r)
                      = map (\<lambda>x. StartStr (exSuggestedTime x))
                          (extractedBlocks aiResponse availableAttractions)))"
proof (intro conjI)
  show "map recPriority (attractions (fst (generateDirectTripPlan e svc userText availableAttractions rtd)))
     = ordinals (length (attractions (fst (generateDirectTripPlan e svc userText availableAttractions rtd))))"
    by (rule pipeline_ordinals)
  show "map priority (attractions (getDirectFallbackTripPlan userText availableAttractions rtd))
     = ordinals (length (attractions (getDirectFallbackTripPlan userText availableAttractions rtd)))"
    using fallback_priority by blast
  show "map recVisitOrder (attractions (getDirectFallbackTripPlan userText availableAttractions rtd))
     = ordinals (length (attractions (getDirectFallbackTripPlan userText availableAttractions rtd)))"
    using fallback_priority by blast
  show "noNegativeVisitTime availableAttractions
        \<and> allValid (map startMinutes
              (attractions (getDirectFallbackTripPlan userText availableAttractions rtd)))
        \<longrightarrow> increasing (map startMinutes
              (attractions (getDirectFallbackTripPlan userText availableAttractions rtd)))"
    using fallback_increasing by blast
  show "case processDirectTripPlan plan availableAttractions trafficData of
         None \<Rightarrow> True
       | Some r \<Rightarrow>
           map priority (attractions r) = generatorOrdinals plan
           \<and> map recVisitOrder (attractions r) = generatorOrdinals plan
           \<and> (noNegativeVisitTime availableAttractions \<and> noNegativeDuration plan
                \<and> firstStartWellFormed plan \<and> allValid (map startMinutes (attractions r))
              \<longrightarrow> increasing (map startMinutes (attractions r)))"
    using processDirect_priority [of plan availableAttractions trafficData]
      processDirect_increasing [of plan availableAttractions trafficData]
    by (auto split: option.splits)
  show "case extractTripPlanFromText aiResponse availableAttractions of
         None \<Rightarrow> True
       | Some r \<Rightarrow>
           map priority (attractions r) = ordinals (length (attractions r))
           \<and> map recVisitOrder (attractions r) = ordinals (length (attractions r))
           \<and> (if extractedBlocks aiResponse availableAttractions = []
               then increasing (map startMinutes (attractions r))
               else map plannedStartTime (attractions r)
                      = map (\<lambda>x. StartStr (exSuggestedTime x))
                          (extractedBlocks aiResponse availableAttractions))"
    using extract_priority [of aiResponse availableAttractions]
      extract_named_increasing [of aiResponse availableAttractions]
      extract_quoted_starts [of aiResponse availableAttractions]
    by (auto split: option.splits)
qed


theorem itinerary_ordinals_and_start_times_witness:
  "map recPriority (attractions (fst (generateDirectTripPlan exEnvParsed (exService None)
                                        exLunchRequest exCatalog (Some exClear))))
     = ordinals (length (attractions (fst (generateDirectTripPlan exEnvParsed (exService None)
                                             exLunchRequest exCatalog (Some exClear)))))
   \<and> noNegativeVisitTime exCatalog \<and> noNegativeDuration exPlanNoTotals
   \<and> firstStartWellFormed exPlanNoTotals
   \<and> allValid (map startMinutes
         (attractions (getDirectFallbackTripPlan exLunchRequest exCatalog (Some exClear))))
   \<and> increasing (map startMinutes
         (attractions (getDirectFallbackTripPlan exLunchRequest exCatalog (Some exClear))))
   \<and> (case processDirectTripPlan exPlanNoTotals exCatalog exTraffic of
         None \<Rightarrow> False
       | Some r \<Rightarrow>
           map priority (attractions r) = generatorOrdinals exPlanNoTotals
           \<and> allValid (map startMinutes (attractions r))
           \<and> increasing (map startMinutes (attractions r)))
   \<and> (case extractTripPlanFromText exTwoBlocks exCatalog of
         None \<Rightarrow> False
       | Some r \<Rightarrow>
           map priority (attractions r) = ordinals (length (attractions r))
           \<and> extractedBlocks exTwoBlocks exCatalog \<noteq> []
           \<and> map plannedStartTime (attractions r)
                = map (\<lambda>x. StartStr (exSuggestedTime x)) (extractedBlocks exTwoBlocks exCatalog))"
  using itinerary_ordinals_and_start_times
          [of exEnvParsed "exService None" exLunchRequest exCatalog "Some exClear"
              exPlanNoTotals exTraffic exTwoBlocks]
    example_schedule_hypotheses two_blocks_result
  by (auto simp: allValid_def split: option.splits)

end
